theory Spec2Isabelle
  imports Main "HOL-Library.Sublist"
begin

section \<open>The validation script \<open>scripts/ai/validate.py\<close>\<close>

text \<open>
  The script drives an external test runner. Everything it does beyond computing strings
  is an effect on the outside world: it reads the process environment, spawns the path
  converter \<open>wslpath\<close> and the runner, creates two directories, reads the clock and
  prints progress lines. The model makes these explicit:
  \<^item> the outside world is a record of oracles (\<open>world\<close>); the two spawned programs and
    the clock may answer differently depending on everything that happened before, so
    they take the trace of earlier effects as an argument;
  \<^item> every effect the script performs is appended to a trace of events, which is the
    state passed through every function;
  \<^item> \<open>raise SystemExit(msg)\<close> is the value \<open>Inl (SystemExit msg)\<close> and stops the
    computation, keeping the trace reached so far.

  A Python \<open>str\<close> is a \<open>string\<close>; a character stands for a code point below 256.
  Library calls are taken to return normally: the converter and the runner can be
  spawned, and the directories can be created.
\<close>

subsection \<open>Data\<close>

datatype error = SystemExit string

text \<open>The \<open>CompletedProcess\<close> of \<open>subprocess.run(..., capture_output=True, text=True)\<close>.\<close>

record completed =
  returncode :: int
  stdout :: string
  stderr :: string

datatype event =
    Converter "string list"  \<comment> \<open>\<open>subprocess.run\<close> in \<open>run_wslpath\<close>, with its command line\<close>
  | Runner "string list"     \<comment> \<open>\<open>subprocess.run\<close> in \<open>run_one\<close>, with its command line\<close>
  | Print string             \<comment> \<open>one \<open>print\<close> call\<close>
  | Mkdir string             \<comment> \<open>\<open>Path(d).mkdir(parents=True, exist_ok=True)\<close>\<close>

type_synonym trace = "event list"

text \<open>
  \<open>pathlib\<close> differs between platforms, so its three operations used by the script are
  oracles as well: \<open>is_file p\<close> is \<open>Path(p).is_file()\<close>, \<open>path_resolve p\<close> is
  \<open>str(Path(p).resolve())\<close> and \<open>joinpath d n\<close> is \<open>str(Path(d) / n)\<close>.
  \<open>strftime_now\<close> is \<open>datetime.now().strftime("%Y%m%d-%H%M%S")\<close>.
\<close>

record world =
  environ :: "string \<rightharpoonup> string"
  wslpath_run :: "trace \<Rightarrow> string list \<Rightarrow> completed"
  unity_run :: "trace \<Rightarrow> string list \<Rightarrow> int"
  is_file :: "string \<Rightarrow> bool"
  path_resolve :: "string \<Rightarrow> string"
  joinpath :: "string \<Rightarrow> string \<Rightarrow> string"
  strftime_now :: "trace \<Rightarrow> string"

datatype command = Single | Suite | Full

datatype platform = EditMode | PlayMode

text \<open>The \<open>argparse.Namespace\<close> returned by \<open>parse_args\<close>; \<open>choices\<close> restrict
  \<open>command\<close> and \<open>--platform\<close> to the values of the two datatypes.\<close>

record namespace =
  command :: command
  platform :: "platform option"
  filter_arg :: "string option"
  unity :: "string option"
  project_path :: string
  results_dir :: string
  logs_dir :: string
  dry_run :: bool

subsection \<open>Effects and errors\<close>

type_synonym 'a prog = "trace \<Rightarrow> (error + 'a) \<times> trace"

definition return_prog :: "'a \<Rightarrow> 'a prog" where
  "return_prog x t = (Inr x, t)"

definition raise_prog :: "error \<Rightarrow> 'a prog" where
  "raise_prog e t = (Inl e, t)"

definition bind_prog :: "'a prog \<Rightarrow> ('a \<Rightarrow> 'b prog) \<Rightarrow> 'b prog" where
  "bind_prog m f t = (case m t of (Inl e, t') \<Rightarrow> (Inl e, t') | (Inr x, t') \<Rightarrow> f x t')"

definition emit :: "event \<Rightarrow> unit prog" where
  "emit e t = (Inr (), t @ [e])"

subsection \<open>Python strings\<close>

text \<open>Truthiness of a \<open>str | None\<close>: \<open>None\<close> and the empty string are false.\<close>

definition truthy :: "string option \<Rightarrow> bool" where
  "truthy v = (case v of None \<Rightarrow> False | Some s \<Rightarrow> s \<noteq> [])"

text \<open>\<open>a or b\<close> on values of type \<open>str | None\<close>.\<close>

definition py_or :: "string option \<Rightarrow> string option \<Rightarrow> string option" where
  "py_or a b = (if truthy a then a else b)"

text \<open>\<open>str.isspace\<close> on one code point below 256, and \<open>str.strip()\<close> with no argument.\<close>

definition isspace :: "char \<Rightarrow> bool" where
  "isspace c = ((of_char c :: nat) \<in> {9, 10, 11, 12, 13, 28, 29, 30, 31, 32, 133, 160})"

definition lstrip :: "string \<Rightarrow> string" where
  "lstrip s = dropWhile isspace s"

definition rstrip :: "string \<Rightarrow> string" where
  "rstrip s = rev (dropWhile isspace (rev s))"

definition strip :: "string \<Rightarrow> string" where
  "strip s = rstrip (lstrip s)"

text \<open>\<open>sep.join(xs)\<close>.\<close>

fun join :: "string \<Rightarrow> string list \<Rightarrow> string" where
  "join sep [] = []"
| "join sep [x] = x"
| "join sep (x # y # ys) = x @ sep @ join sep (y # ys)"

text \<open>\<open>str(n)\<close> for an \<open>int\<close>.\<close>

fun digits :: "nat \<Rightarrow> string" where
  "digits n = (if n < 10 then [char_of (48 + n)]
               else digits (n div 10) @ [char_of (48 + n mod 10)])"

declare digits.simps [simp del]

definition str_int :: "int \<Rightarrow> string" where
  "str_int i = (if i < 0 then CHR ''-'' # digits (nat (- i)) else digits (nat i))"

definition command_name :: "command \<Rightarrow> string" where
  "command_name c = (case c of Single \<Rightarrow> ''single'' | Suite \<Rightarrow> ''suite'' | Full \<Rightarrow> ''full'')"

definition platform_name :: "platform \<Rightarrow> string" where
  "platform_name p = (case p of EditMode \<Rightarrow> ''EditMode'' | PlayMode \<Rightarrow> ''PlayMode'')"

text \<open>\<open>args.platform\<close> as the f-strings of \<open>main\<close> format it.\<close>

definition platform_str :: "platform option \<Rightarrow> string" where
  "platform_str p = (case p of None \<Rightarrow> ''None'' | Some q \<Rightarrow> platform_name q)"

subsection \<open>Environment detector and path translator\<close>

definition is_wsl :: "world \<Rightarrow> bool" where
  "is_wsl w = (environ w ''WSL_DISTRO_NAME'' \<noteq> None \<or> environ w ''WSL_INTEROP'' \<noteq> None)"

definition looks_like_windows_path :: "string \<Rightarrow> bool" where
  "looks_like_windows_path path =
     (if length path \<ge> 3 \<and> path ! 1 = CHR '':'' \<and> (path ! 2 = CHR 0x5C \<or> path ! 2 = CHR ''/'')
      then True
      else if CHR 0x5C \<in> set path then True
      else False)"

definition run_wslpath :: "world \<Rightarrow> string \<Rightarrow> string \<Rightarrow> string prog" where
  "run_wslpath w arg v t =
     (let cmd = [''wslpath'', arg, v];
          completed = wslpath_run w t cmd;
          t' = t @ [Converter cmd]
      in if returncode completed \<noteq> 0
         then (Inl (SystemExit (''Error: failed to convert path via wslpath: '' @ v)), t')
         else (Inr (strip (stdout completed)), t'))"

definition to_unix_path :: "world \<Rightarrow> string \<Rightarrow> string prog" where
  "to_unix_path w path =
     (if is_wsl w \<and> looks_like_windows_path path then run_wslpath w ''-u'' path
      else return_prog path)"

definition to_windows_path :: "world \<Rightarrow> string \<Rightarrow> string prog" where
  "to_windows_path w path =
     (if is_wsl w then run_wslpath w ''-w'' path else return_prog path)"

subsection \<open>Executable resolver\<close>

definition resolve_unity_path :: "world \<Rightarrow> string option \<Rightarrow> bool \<Rightarrow> string prog" where
  "resolve_unity_path w cli_unity dry =
     (case py_or cli_unity (environ w ''UNITY_EDITOR_PATH'') of
        None \<Rightarrow> raise_prog
          (SystemExit ''Error: Unity path is required. Use --unity or set UNITY_EDITOR_PATH.'')
      | Some raw \<Rightarrow>
          if raw = [] then raise_prog
            (SystemExit ''Error: Unity path is required. Use --unity or set UNITY_EDITOR_PATH.'')
          else bind_prog (to_unix_path w raw) (\<lambda>u.
            if \<not> dry \<and> \<not> is_file w u
            then raise_prog (SystemExit
              (''Error: Unity editor not found at '' @ [CHR 0x27] @ u @ [CHR 0x27] @ ''.''))
            else return_prog u))"

subsection \<open>Invocation builder\<close>

definition build_args ::
  "world \<Rightarrow> string \<Rightarrow> string \<Rightarrow> string \<Rightarrow> string \<Rightarrow> string option \<Rightarrow> string list prog" where
  "build_args w proj plat results_file log_file test_filter =
     bind_prog (to_windows_path w proj) (\<lambda>normalized_project_path.
     bind_prog (to_windows_path w results_file) (\<lambda>normalized_results_file.
     bind_prog (to_windows_path w log_file) (\<lambda>normalized_log_file.
       return_prog
         ([''-batchmode'',
           ''-projectPath'', normalized_project_path,
           ''-runTests'',
           ''-testPlatform'', plat,
           ''-testResults'', normalized_results_file,
           ''-logFile'', normalized_log_file,
           ''-quit'']
          @ (case test_filter of
               None \<Rightarrow> []
             | Some f \<Rightarrow> if f \<noteq> [] then [''-testFilter'', f] else [])))))"

subsection \<open>Run executor\<close>

definition quote :: "string \<Rightarrow> string" where
  "quote s = [CHR 0x22] @ s @ [CHR 0x22]"

definition run_one ::
  "world \<Rightarrow> string \<Rightarrow> string \<Rightarrow> string \<Rightarrow> string \<Rightarrow> string \<Rightarrow> string option \<Rightarrow> bool
     \<Rightarrow> unit prog" where
  "run_one w unity_path proj plat results_file log_file test_filter dry =
     bind_prog (build_args w proj plat results_file log_file test_filter) (\<lambda>args.
     bind_prog (emit (Print (''[validate] platform='' @ plat))) (\<lambda>_.
     bind_prog (emit (Print (''[validate] results='' @ results_file))) (\<lambda>_.
     bind_prog (emit (Print (''[validate] log='' @ log_file))) (\<lambda>_.
       if dry
       then emit (Print (''[dry-run] '' @ join '' '' (quote unity_path # map quote args)))
       else (\<lambda>t.
         let cmd = unity_path # args;
             rc = unity_run w t cmd;
             t' = t @ [Runner cmd]
         in if rc \<noteq> 0
            then (Inl (SystemExit
                   (''Error: Unity test run failed with exit code '' @ str_int rc @ ''.'')), t')
            else (Inr (), t'))))))"

subsection \<open>Command sequencer\<close>

definition main :: "world \<Rightarrow> namespace \<Rightarrow> unit prog" where
  "main w args =
     (if (command args = Single \<or> command args = Suite) \<and> platform args = None
      then raise_prog (SystemExit
             (''Error: '' @ command_name (command args) @ '' requires --platform.''))
      else if command args = Single \<and> \<not> truthy (filter_arg args)
      then raise_prog (SystemExit ''Error: single requires --filter.'')
      else
        bind_prog (resolve_unity_path w (unity args) (dry_run args)) (\<lambda>unity_path.
        let proj = path_resolve w (project_path args) in
        bind_prog (emit (Mkdir (results_dir args))) (\<lambda>_.
        bind_prog (emit (Mkdir (logs_dir args))) (\<lambda>_.
        bind_prog (\<lambda>t. (Inr (strftime_now w t), t)) (\<lambda>timestamp.
        bind_prog
          (case command args of
             Single \<Rightarrow>
               run_one w unity_path proj (platform_str (platform args))
                 (joinpath w (results_dir args)
                    (platform_str (platform args) @ ''-single-'' @ timestamp @ ''.xml''))
                 (joinpath w (logs_dir args)
                    (platform_str (platform args) @ ''-single-'' @ timestamp @ ''.log''))
                 (filter_arg args) (dry_run args)
           | Suite \<Rightarrow>
               run_one w unity_path proj (platform_str (platform args))
                 (joinpath w (results_dir args)
                    (platform_str (platform args) @ ''-suite-'' @ timestamp @ ''.xml''))
                 (joinpath w (logs_dir args)
                    (platform_str (platform args) @ ''-suite-'' @ timestamp @ ''.log''))
                 None (dry_run args)
           | Full \<Rightarrow>
               bind_prog
                 (run_one w unity_path proj ''EditMode''
                    (joinpath w (results_dir args) (''EditMode-suite-'' @ timestamp @ ''.xml''))
                    (joinpath w (logs_dir args) (''EditMode-suite-'' @ timestamp @ ''.log''))
                    None (dry_run args))
                 (\<lambda>_.
                  run_one w unity_path proj ''PlayMode''
                    (joinpath w (results_dir args) (''PlayMode-suite-'' @ timestamp @ ''.xml''))
                    (joinpath w (logs_dir args) (''PlayMode-suite-'' @ timestamp @ ''.log''))
                    None (dry_run args)))
          (\<lambda>_. emit (Print ''[validate] done'')))))))"

subsection \<open>Observations on traces\<close>

text \<open>The command lines of the runner launches in a trace, in the order they happened.\<close>

fun runner_launches :: "trace \<Rightarrow> string list list" where
  "runner_launches [] = []"
| "runner_launches (Runner c # es) = c # runner_launches es"
| "runner_launches (e # es) = runner_launches es"

text \<open>The lines printed in a trace, in order, and the events that are converter launches.\<close>

fun printed :: "trace \<Rightarrow> string list" where
  "printed [] = []"
| "printed (Print s # es) = s # printed es"
| "printed (e # es) = printed es"

fun is_converter :: "event \<Rightarrow> bool" where
  "is_converter (Converter c) = True"
| "is_converter e = False"

subsection \<open>Names for the script's literals\<close>

text \<open>
  The eleven fixed arguments of \<open>build_args\<close>, the optional filter pair, the three
  progress lines and the dry-run line of \<open>run_one\<close>, and the errors raised by
  \<open>run_wslpath\<close>, \<open>run_one\<close> and \<open>resolve_unity_path\<close>, each under a name.
\<close>

definition fixed_flags :: "string \<Rightarrow> string \<Rightarrow> string \<Rightarrow> string \<Rightarrow> string list" where
  "fixed_flags p plat r l =
     [''-batchmode'', ''-projectPath'', p, ''-runTests'', ''-testPlatform'', plat,
      ''-testResults'', r, ''-logFile'', l, ''-quit'']"

definition filter_pair :: "string option \<Rightarrow> string list" where
  "filter_pair flt = (case flt of None \<Rightarrow> [] | Some f \<Rightarrow> if f \<noteq> [] then [''-testFilter'', f] else [])"

definition progress :: "string \<Rightarrow> string \<Rightarrow> string \<Rightarrow> trace" where
  "progress plat rf lf =
     [Print (''[validate] platform='' @ plat),
      Print (''[validate] results='' @ rf),
      Print (''[validate] log='' @ lf)]"

definition dry_run_line :: "string list \<Rightarrow> event" where
  "dry_run_line cmd = Print (''[dry-run] '' @ join '' '' (map quote cmd))"

definition runner_failed :: "int \<Rightarrow> error" where
  "runner_failed rc =
     SystemExit (''Error: Unity test run failed with exit code '' @ str_int rc @ ''.'')"

definition conversion_error :: "string \<Rightarrow> error" where
  "conversion_error v = SystemExit (''Error: failed to convert path via wslpath: '' @ v)"

definition path_required :: error where
  "path_required =
     SystemExit ''Error: Unity path is required. Use --unity or set UNITY_EDITOR_PATH.''"

definition not_found :: "string \<Rightarrow> error" where
  "not_found p =
     SystemExit (''Error: Unity editor not found at '' @ [CHR 0x27] @ p @ [CHR 0x27] @ ''.'')"

text \<open>A conversion can only fail inside the compatibility layer, on a converter that
  exits nonzero at least once.\<close>

definition conversion_failure :: "world \<Rightarrow> error \<Rightarrow> bool" where
  "conversion_failure w e =
     ((\<exists>v. e = conversion_error v) \<and> is_wsl w \<and> (\<exists>h c. returncode (wslpath_run w h c) \<noteq> 0))"

text \<open>
  An event that shows no filter pair: a runner launch whose command line is the
  executable and the eleven fixed arguments, a dry-run line that quotes exactly such a
  command line, or any other event.
\<close>

fun no_filter_event :: "event \<Rightarrow> bool" where
  "no_filter_event (Runner cmd) = (\<exists>u p plat x l. cmd = u # fixed_flags p plat x l)"
| "no_filter_event (Print s) =
     (take 10 s = ''[dry-run] '' \<longrightarrow>
        (\<exists>u p plat x l. Print s = dry_run_line (u # fixed_flags p plat x l)))"
| "no_filter_event e = True"

subsection \<open>The mode dispatch of \<open>main\<close>\<close>

text \<open>
  The \<open>if\<close>/\<open>elif\<close>/\<open>else\<close> over \<open>args.command\<close> in \<open>main\<close>, as a function of
  the resolved executable and of the trace at which the clock is read. \<open>main_dispatch\<close>
  below shows that \<open>main\<close> is the two checks, the resolver, the two directories, this
  dispatch and the completion line.
\<close>

definition dispatch :: "world \<Rightarrow> namespace \<Rightarrow> string \<Rightarrow> unit prog" where
  "dispatch w a u t2 =
     (case command a of
        Single \<Rightarrow>
          run_one w u (path_resolve w (project_path a)) (platform_str (platform a))
            (joinpath w (results_dir a)
               (platform_str (platform a) @ ''-single-'' @ strftime_now w t2 @ ''.xml''))
            (joinpath w (logs_dir a)
               (platform_str (platform a) @ ''-single-'' @ strftime_now w t2 @ ''.log''))
            (filter_arg a) (dry_run a) t2
      | Suite \<Rightarrow>
          run_one w u (path_resolve w (project_path a)) (platform_str (platform a))
            (joinpath w (results_dir a)
               (platform_str (platform a) @ ''-suite-'' @ strftime_now w t2 @ ''.xml''))
            (joinpath w (logs_dir a)
               (platform_str (platform a) @ ''-suite-'' @ strftime_now w t2 @ ''.log''))
            None (dry_run a) t2
      | Full \<Rightarrow>
          (case run_one w u (path_resolve w (project_path a)) ''EditMode''
                  (joinpath w (results_dir a) (''EditMode-suite-'' @ strftime_now w t2 @ ''.xml''))
                  (joinpath w (logs_dir a) (''EditMode-suite-'' @ strftime_now w t2 @ ''.log''))
                  None (dry_run a) t2 of
             (Inl e, t3) \<Rightarrow> (Inl e, t3)
           | (Inr x, t3) \<Rightarrow>
               run_one w u (path_resolve w (project_path a)) ''PlayMode''
                 (joinpath w (results_dir a) (''PlayMode-suite-'' @ strftime_now w t2 @ ''.xml''))
                 (joinpath w (logs_dir a) (''PlayMode-suite-'' @ strftime_now w t2 @ ''.log''))
                 None (dry_run a) t3))"

subsection \<open>The foreign-namespace pattern as the specification words it\<close>

text \<open>
  The specification describes the lexical test of \<open>to_unix\<close> as a drive letter, a colon
  and a separator, or the presence of the foreign separator. This definition follows
  those words; \<open>looks_like_windows_path\<close> above follows the code.
\<close>

definition ascii_letter :: "char \<Rightarrow> bool" where
  "ascii_letter c = ((65 \<le> (of_char c :: nat) \<and> (of_char c :: nat) \<le> 90) \<or>
                     (97 \<le> (of_char c :: nat) \<and> (of_char c :: nat) \<le> 122))"

definition spec_foreign_namespace_path :: "string \<Rightarrow> bool" where
  "spec_foreign_namespace_path path =
     ((length path \<ge> 3 \<and> ascii_letter (path ! 0) \<and> path ! 1 = CHR '':'' \<and>
        (path ! 2 = CHR 0x5C \<or> path ! 2 = CHR ''/''))
      \<or> CHR 0x5C \<in> set path)"

subsection \<open>Example worlds\<close>

text \<open>
  \<open>native_world\<close> is a plain Unix host with the editor installed and a runner that
  passes. \<open>wsl_world\<close> is a compatibility-layer host whose converter swaps the
  separators and ends its output with a newline. \<open>broken_wsl_world\<close> is the same host
  with a converter that always fails.
\<close>

definition swap_sep :: "char \<Rightarrow> char \<Rightarrow> string \<Rightarrow> string" where
  "swap_sep a b s = map (\<lambda>c. if c = a then b else c) s"

definition native_world :: world where
  "native_world =
     \<lparr>environ = [''UNITY_EDITOR_PATH'' \<mapsto> ''/opt/Unity/Editor/Unity''],
      wslpath_run = (\<lambda>h c. \<lparr>returncode = 127, stdout = [], stderr = ''wslpath: not found''\<rparr>),
      unity_run = (\<lambda>h c. 0),
      is_file = (\<lambda>p. p = ''/opt/Unity/Editor/Unity''),
      path_resolve = (\<lambda>p. p),
      joinpath = (\<lambda>d n. d @ ''/'' @ n),
      strftime_now = (\<lambda>h. ''20240101-120000'')\<rparr>"

definition wsl_world :: world where
  "wsl_world =
     \<lparr>environ = [''WSL_DISTRO_NAME'' \<mapsto> ''Ubuntu''],
      wslpath_run = (\<lambda>h c.
         \<lparr>returncode = 0,
          stdout = (if c ! 1 = ''-w'' then swap_sep CHR ''/'' (CHR 0x5C) (c ! 2)
                    else swap_sep (CHR 0x5C) CHR ''/'' (c ! 2)) @ [CHR 0x0A],
          stderr = []\<rparr>),
      unity_run = (\<lambda>h c. 0),
      is_file = (\<lambda>p. True),
      path_resolve = (\<lambda>p. p),
      joinpath = (\<lambda>d n. d @ ''/'' @ n),
      strftime_now = (\<lambda>h. ''20240101-120000'')\<rparr>"

definition broken_wsl_world :: world where
  "broken_wsl_world =
     wsl_world\<lparr>wslpath_run :=
       (\<lambda>h c. \<lparr>returncode = 1, stdout = [], stderr = ''wslpath: Invalid argument''\<rparr>)\<rparr>"

text \<open>\<open>failing_runner_world\<close> is the native host with a runner whose first launch exits
  with code 1; \<open>full_request\<close> is a \<open>full\<close> command line with an explicit editor path.\<close>

definition failing_runner_world :: world where
  "failing_runner_world =
     native_world\<lparr>unity_run := (\<lambda>h c. if runner_launches h = [] then 1 else 0)\<rparr>"


text \<open>\<open>dry_request\<close> is a \<open>single\<close> dry run whose editor path does not exist on
  \<open>native_world\<close>.\<close>

definition dry_request :: namespace where
  "dry_request =
     \<lparr>command = Single, platform = Some EditMode, filter_arg = Some ''MyTest'',
      unity = Some ''/no/such/Unity'', project_path = ''/home/dev/proj'',
      results_dir = ''Temp/AIValidation'', logs_dir = ''Temp/AIValidation/logs'',
      dry_run = True\<rparr>"

text \<open>\<open>suite_request\<close> is a \<open>suite\<close> command line that also carries a filter.\<close>

definition suite_request :: namespace where
  "suite_request =
     \<lparr>command = Suite, platform = Some PlayMode, filter_arg = Some ''MyTest'',
      unity = Some ''/opt/Unity/Editor/Unity'', project_path = ''/home/dev/proj'',
      results_dir = ''Temp/AIValidation'', logs_dir = ''Temp/AIValidation/logs'',
      dry_run = False\<rparr>"


section \<open>Path translator\<close>

lemma run_wslpath_trace:
  "snd (run_wslpath w arg v t) = t @ [Converter [''wslpath'', arg, v]]"
  by (simp add: run_wslpath_def Let_def)

text \<open>
  Claim C3. Outside the compatibility layer \<open>to_windows_path\<close> returns its argument and
  leaves the trace alone. Inside it, whatever the path looks like, it is the converter
  call with mode \<open>-w\<close>, and exactly one converter launch with that mode and that path
  is added to the trace.
\<close>

theorem to_windows_path_spec:
  "(\<not> is_wsl w \<longrightarrow> to_windows_path w path t = (Inr path, t)) \<and>
   (is_wsl w \<longrightarrow> to_windows_path w path t = run_wslpath w ''-w'' path t \<and>
      snd (to_windows_path w path t) = t @ [Converter [''wslpath'', ''-w'', path]])"
  by (simp add: to_windows_path_def return_prog_def run_wslpath_trace)

text \<open>The two cases of C3 on a native host and on a compatibility-layer host.\<close>

theorem to_windows_path_spec_witness:
  "to_windows_path native_world ''/home/dev/proj'' [] = (Inr ''/home/dev/proj'', []) \<and>
   snd (to_windows_path wsl_world ''/home/dev/proj'' []) =
     [Converter [''wslpath'', ''-w'', ''/home/dev/proj'']]"
proof -
  have n: "\<not> is_wsl native_world"
    by (simp add: is_wsl_def native_world_def)
  have y: "is_wsl wsl_world"
    by (simp add: is_wsl_def wsl_world_def)
  from n to_windows_path_spec [of native_world "''/home/dev/proj''" "[]"]
  have a: "to_windows_path native_world ''/home/dev/proj'' [] = (Inr ''/home/dev/proj'', [])"
    by blast
  from y to_windows_path_spec [of wsl_world "''/home/dev/proj''" "[]"]
  have b: "snd (to_windows_path wsl_world ''/home/dev/proj'' []) =
     [] @ [Converter [''wslpath'', ''-w'', ''/home/dev/proj'']]"
    by blast
  from a b show ?thesis by simp
qed

text \<open>
  Claim C4 as stated fails: the code never looks at the first character, so inside the
  compatibility layer the path \<open>1:/tmp\<close>, which has no drive letter and no backslash,
  is sent to the converter.
\<close>

theorem to_unix_path_counterexample:
  "is_wsl wsl_world \<and> \<not> spec_foreign_namespace_path ''1:/tmp'' \<and>
   to_unix_path wsl_world ''1:/tmp'' [] =
     (Inr ''1:/tmp'', [Converter [''wslpath'', ''-u'', ''1:/tmp'']])"
  by (simp add: is_wsl_def wsl_world_def spec_foreign_namespace_path_def ascii_letter_def
      to_unix_path_def looks_like_windows_path_def run_wslpath_def swap_sep_def
      strip_def lstrip_def rstrip_def isspace_def)

text \<open>
  Claim C4, amended. \<open>to_unix_path\<close> calls the converter with mode \<open>-u\<close> exactly when
  the process is inside the compatibility layer and the path either has at least three
  characters with a colon in second place and a slash or backslash in third place
  (whatever the first character is), or contains a backslash. In every other case the
  path comes back unchanged and nothing is launched.
\<close>

theorem to_unix_path_spec:
  "looks_like_windows_path path =
     ((3 \<le> length path \<and> path ! 1 = CHR '':'' \<and> (path ! 2 = CHR 0x5C \<or> path ! 2 = CHR ''/''))
      \<or> CHR 0x5C \<in> set path) \<and>
   (is_wsl w \<and> looks_like_windows_path path \<longrightarrow>
      to_unix_path w path t = run_wslpath w ''-u'' path t \<and>
      snd (to_unix_path w path t) = t @ [Converter [''wslpath'', ''-u'', path]]) \<and>
   (\<not> (is_wsl w \<and> looks_like_windows_path path) \<longrightarrow>
      to_unix_path w path t = (Inr path, t))"
proof -
  have "looks_like_windows_path path =
     ((3 \<le> length path \<and> path ! 1 = CHR '':'' \<and> (path ! 2 = CHR 0x5C \<or> path ! 2 = CHR ''/''))
      \<or> CHR 0x5C \<in> set path)"
    unfolding looks_like_windows_path_def by auto
  moreover have "is_wsl w \<and> looks_like_windows_path path \<longrightarrow>
      to_unix_path w path t = run_wslpath w ''-u'' path t \<and>
      snd (to_unix_path w path t) = t @ [Converter [''wslpath'', ''-u'', path]]"
    by (simp add: to_unix_path_def run_wslpath_trace)
  moreover have "\<not> (is_wsl w \<and> looks_like_windows_path path) \<longrightarrow>
      to_unix_path w path t = (Inr path, t)"
    by (auto simp: to_unix_path_def return_prog_def)
  ultimately show ?thesis by blast
qed

text \<open>The three cases of the amended C4: converted, not foreign-looking, not inside the layer.\<close>

theorem to_unix_path_spec_witness:
  "snd (to_unix_path wsl_world ''C:/Unity/Unity.exe'' []) =
     [Converter [''wslpath'', ''-u'', ''C:/Unity/Unity.exe'']] \<and>
   to_unix_path wsl_world ''/opt/Unity/Editor/Unity'' [] = (Inr ''/opt/Unity/Editor/Unity'', []) \<and>
   to_unix_path native_world ''C:/Unity/Unity.exe'' [] = (Inr ''C:/Unity/Unity.exe'', [])"
proof -
  have y: "is_wsl wsl_world"
    by (simp add: is_wsl_def wsl_world_def)
  have n: "\<not> is_wsl native_world"
    by (simp add: is_wsl_def native_world_def)
  have p: "looks_like_windows_path ''C:/Unity/Unity.exe''"
    by (simp add: looks_like_windows_path_def)
  have q: "\<not> looks_like_windows_path ''/opt/Unity/Editor/Unity''"
    by (simp add: looks_like_windows_path_def)
  from y p to_unix_path_spec [of "''C:/Unity/Unity.exe''" wsl_world "[]"]
  have a: "snd (to_unix_path wsl_world ''C:/Unity/Unity.exe'' []) =
     [] @ [Converter [''wslpath'', ''-u'', ''C:/Unity/Unity.exe'']]"
    by blast
  from q to_unix_path_spec [of "''/opt/Unity/Editor/Unity''" wsl_world "[]"]
  have b: "to_unix_path wsl_world ''/opt/Unity/Editor/Unity'' [] =
     (Inr ''/opt/Unity/Editor/Unity'', [])"
    by blast
  from n to_unix_path_spec [of "''C:/Unity/Unity.exe''" native_world "[]"]
  have c: "to_unix_path native_world ''C:/Unity/Unity.exe'' [] = (Inr ''C:/Unity/Unity.exe'', [])"
    by blast
  from a b c show ?thesis by simp
qed

text \<open>
  Claim C7 as stated fails: the converter of \<open>broken_wsl_world\<close> exits with code 1 and
  reports \<open>wslpath: Invalid argument\<close>, and the message of the resulting error does
  not contain that report.
\<close>

theorem run_wslpath_failure_counterexample:
  "returncode (wslpath_run broken_wsl_world [] [''wslpath'', ''-u'', ''C:/x'']) = 1 \<and>
   stderr (wslpath_run broken_wsl_world [] [''wslpath'', ''-u'', ''C:/x'']) =
     ''wslpath: Invalid argument'' \<and>
   run_wslpath broken_wsl_world ''-u'' ''C:/x'' [] =
     (Inl (SystemExit ''Error: failed to convert path via wslpath: C:/x''),
      [Converter [''wslpath'', ''-u'', ''C:/x'']]) \<and>
   \<not> sublist ''wslpath: Invalid argument'' ''Error: failed to convert path via wslpath: C:/x''"
  by (simp add: broken_wsl_world_def wsl_world_def run_wslpath_def sublist_Cons_right)

text \<open>
  Claim C7, amended. Whenever the converter exits nonzero, \<open>run_wslpath\<close> fails with
  \<open>SystemExit\<close>, and the message is the fixed text
  \<open>Error: failed to convert path via wslpath: \<close> followed by the offending path, so
  it includes the path and depends on nothing the converter reported.
\<close>

theorem run_wslpath_failure:
  "returncode (wslpath_run w t [''wslpath'', arg, v]) \<noteq> 0 \<Longrightarrow>
   run_wslpath w arg v t =
     (Inl (SystemExit (''Error: failed to convert path via wslpath: '' @ v)),
      t @ [Converter [''wslpath'', arg, v]]) \<and>
   sublist v (''Error: failed to convert path via wslpath: '' @ v)"
  using sublist_append_leftI [of v "''Error: failed to convert path via wslpath: ''"]
  by (simp add: run_wslpath_def Let_def del: sublist_append_leftI)

text \<open>The amended C7 on the failing converter.\<close>

theorem run_wslpath_failure_witness:
  "returncode (wslpath_run broken_wsl_world [] [''wslpath'', ''-w'', ''/home/dev/proj'']) \<noteq> 0 \<and>
   fst (run_wslpath broken_wsl_world ''-w'' ''/home/dev/proj'' []) =
     Inl (SystemExit ''Error: failed to convert path via wslpath: /home/dev/proj'')"
proof -
  have h: "returncode (wslpath_run broken_wsl_world [] [''wslpath'', ''-w'', ''/home/dev/proj'']) \<noteq> 0"
    by (simp add: broken_wsl_world_def)
  from run_wslpath_failure [OF h] show ?thesis using h by simp
qed

subsection \<open>What \<open>strip\<close> removes\<close>

lemma rev_dropWhile_split:
  "xs = rev (dropWhile P (rev xs)) @ rev (takeWhile P (rev xs))"
  by (metis rev_append rev_rev_ident takeWhile_dropWhile_id)

lemma strip_decompose:
  "\<exists>pre suf. s = pre @ strip s @ suf \<and> (\<forall>c\<in>set pre. isspace c) \<and> (\<forall>c\<in>set suf. isspace c)"
proof -
  let ?l = "dropWhile isspace s"
  have a: "s = takeWhile isspace s @ ?l" by simp
  have b: "?l = strip s @ rev (takeWhile isspace (rev ?l))"
    unfolding strip_def rstrip_def lstrip_def by (rule rev_dropWhile_split)
  have c: "\<forall>c\<in>set (takeWhile isspace s). isspace c"
    by (auto dest: set_takeWhileD)
  have d: "\<forall>c\<in>set (rev (takeWhile isspace (rev ?l))). isspace c"
    by (auto dest: set_takeWhileD)
  from a b have "s = takeWhile isspace s @ strip s @ rev (takeWhile isspace (rev ?l))"
    by simp
  with c d show ?thesis by blast
qed

lemma strip_ends:
  assumes "strip s \<noteq> []"
  shows "\<not> isspace (hd (strip s)) \<and> \<not> isspace (last (strip s))"
proof -
  let ?l = "dropWhile isspace s"
  let ?r = "dropWhile isspace (rev ?l)"
  from assms have ne: "?r \<noteq> []"
    by (simp add: strip_def rstrip_def lstrip_def)
  then have "\<not> isspace (hd ?r)" by (rule hd_dropWhile)
  with ne have l: "\<not> isspace (last (strip s))"
    by (simp add: strip_def rstrip_def lstrip_def last_rev)
  have lne: "?l \<noteq> []"
  proof
    assume "?l = []"
    with ne show False by simp
  qed
  then have hl: "\<not> isspace (hd ?l)" by (rule hd_dropWhile)
  have "?l = strip s @ rev (takeWhile isspace (rev ?l))"
    unfolding strip_def rstrip_def lstrip_def by (rule rev_dropWhile_split)
  with assms have "hd ?l = hd (strip s)"
    by (metis hd_append2)
  with hl l show ?thesis by simp
qed

text \<open>
  Claim C8 as stated fails: the converter's output for the relative path \<open> notes/a.txt\<close>
  starts with a space, and the returned string has lost it.
\<close>

theorem run_wslpath_success_counterexample:
  "returncode (wslpath_run wsl_world [] [''wslpath'', ''-w'', '' notes/a.txt'']) = 0 \<and>
   stdout (wslpath_run wsl_world [] [''wslpath'', ''-w'', '' notes/a.txt'']) =
     [CHR 0x20] @ ''notes'' @ [CHR 0x5C] @ ''a.txt'' @ [CHR 0x0A] \<and>
   fst (run_wslpath wsl_world ''-w'' '' notes/a.txt'' []) = Inr (''notes'' @ [CHR 0x5C] @ ''a.txt'')"
  by (simp add: wsl_world_def run_wslpath_def swap_sep_def strip_def lstrip_def rstrip_def
      isspace_def)

text \<open>
  Claim C8, amended. When the converter exits with code zero, \<open>run_wslpath\<close> returns its
  captured standard output with the whitespace at both ends removed: the output is the
  returned string between a run of whitespace before it and a run of whitespace after
  it, and a non-empty returned string neither starts nor ends with whitespace.
\<close>

theorem run_wslpath_success:
  "returncode (wslpath_run w t [''wslpath'', arg, v]) = 0 \<Longrightarrow>
   run_wslpath w arg v t =
     (Inr (strip (stdout (wslpath_run w t [''wslpath'', arg, v]))),
      t @ [Converter [''wslpath'', arg, v]]) \<and>
   (\<exists>pre suf. stdout (wslpath_run w t [''wslpath'', arg, v]) =
        pre @ strip (stdout (wslpath_run w t [''wslpath'', arg, v])) @ suf \<and>
      (\<forall>c\<in>set pre. isspace c) \<and> (\<forall>c\<in>set suf. isspace c)) \<and>
   (strip (stdout (wslpath_run w t [''wslpath'', arg, v])) \<noteq> [] \<longrightarrow>
      \<not> isspace (hd (strip (stdout (wslpath_run w t [''wslpath'', arg, v])))) \<and>
      \<not> isspace (last (strip (stdout (wslpath_run w t [''wslpath'', arg, v])))))"
  using strip_decompose [of "stdout (wslpath_run w t [''wslpath'', arg, v])"]
    strip_ends [of "stdout (wslpath_run w t [''wslpath'', arg, v])"]
  by (simp add: run_wslpath_def Let_def)

text \<open>The amended C8 on the converter of \<open>wsl_world\<close>.\<close>

theorem run_wslpath_success_witness:
  "returncode (wslpath_run wsl_world [] [''wslpath'', ''-w'', ''/home/dev/proj'']) = 0 \<and>
   fst (run_wslpath wsl_world ''-w'' ''/home/dev/proj'' []) =
     Inr (strip (stdout (wslpath_run wsl_world [] [''wslpath'', ''-w'', ''/home/dev/proj''])))"
proof -
  have h: "returncode (wslpath_run wsl_world [] [''wslpath'', ''-w'', ''/home/dev/proj'']) = 0"
    by (simp add: wsl_world_def)
  from run_wslpath_success [OF h] show ?thesis using h by simp
qed

section \<open>Invocation builder\<close>

text \<open>
  Claim C1 as stated fails on two counts. With the filter \<open>MyTest\<close> the pair
  \<open>-testFilter MyTest\<close> comes after \<open>-quit\<close>, so the quit flag is not after the
  filter pair; and with the empty string as filter no pair is added at all.
\<close>

theorem build_args_counterexample:
  "build_args native_world ''/home/dev/proj'' ''EditMode'' ''out/r.xml'' ''out/r.log''
     (Some ''MyTest'') [] =
     (Inr [''-batchmode'', ''-projectPath'', ''/home/dev/proj'', ''-runTests'',
           ''-testPlatform'', ''EditMode'', ''-testResults'', ''out/r.xml'',
           ''-logFile'', ''out/r.log'', ''-quit'', ''-testFilter'', ''MyTest''], []) \<and>
   build_args native_world ''/home/dev/proj'' ''EditMode'' ''out/r.xml'' ''out/r.log''
     (Some []) [] =
     (Inr [''-batchmode'', ''-projectPath'', ''/home/dev/proj'', ''-runTests'',
           ''-testPlatform'', ''EditMode'', ''-testResults'', ''out/r.xml'',
           ''-logFile'', ''out/r.log'', ''-quit''], [])"
  by (simp add: build_args_def bind_prog_def return_prog_def to_windows_path_def is_wsl_def
      native_world_def)

lemma build_args_shape:
  assumes "build_args w proj plat rf lf flt t = (Inr args, t')"
  shows "\<exists>p r l. args =
     [''-batchmode'', ''-projectPath'', p, ''-runTests'', ''-testPlatform'', plat,
      ''-testResults'', r, ''-logFile'', l, ''-quit'']
     @ (case flt of None \<Rightarrow> [] | Some f \<Rightarrow> if f \<noteq> [] then [''-testFilter'', f] else [])"
  using assms
  by (auto simp: build_args_def bind_prog_def return_prog_def split: prod.splits sum.splits)

text \<open>
  Claim C1, amended. Whenever \<open>build_args\<close> returns a list, its first eleven elements
  are the fixed flags with \<open>-quit\<close> last among them, after \<open>-batchmode\<close>,
  \<open>-projectPath\<close>, \<open>-runTests\<close>, \<open>-testPlatform\<close>, \<open>-testResults\<close> and
  \<open>-logFile\<close>. What follows \<open>-quit\<close> is either nothing or the filter pair, and it is
  the pair \<open>-testFilter f\<close> exactly when the filter \<open>f\<close> was supplied and is not the
  empty string. Outside the compatibility layer the three paths are passed as given.
\<close>

theorem build_args_order:
  assumes "build_args w proj plat rf lf flt t = (Inr args, t')"
  shows "(\<exists>p r l. take 11 args =
            [''-batchmode'', ''-projectPath'', p, ''-runTests'', ''-testPlatform'', plat,
             ''-testResults'', r, ''-logFile'', l, ''-quit'']) \<and>
         (\<forall>f. (drop 11 args = [''-testFilter'', f]) = (flt = Some f \<and> f \<noteq> [])) \<and>
         (drop 11 args = [] \<or> (\<exists>f. drop 11 args = [''-testFilter'', f])) \<and>
         (\<not> is_wsl w \<longrightarrow> take 11 args =
            [''-batchmode'', ''-projectPath'', proj, ''-runTests'', ''-testPlatform'', plat,
             ''-testResults'', rf, ''-logFile'', lf, ''-quit''])"
proof -
  from build_args_shape [OF assms] obtain p r l where
    a: "args = [''-batchmode'', ''-projectPath'', p, ''-runTests'', ''-testPlatform'', plat,
      ''-testResults'', r, ''-logFile'', l, ''-quit'']
     @ (case flt of None \<Rightarrow> [] | Some f \<Rightarrow> if f \<noteq> [] then [''-testFilter'', f] else [])"
    by blast
  from a have 1: "\<exists>p r l. take 11 args =
            [''-batchmode'', ''-projectPath'', p, ''-runTests'', ''-testPlatform'', plat,
             ''-testResults'', r, ''-logFile'', l, ''-quit'']"
    by simp
  from a have 2: "\<forall>f. (drop 11 args = [''-testFilter'', f]) = (flt = Some f \<and> f \<noteq> [])"
    by (auto split: option.splits)
  from a have 3: "drop 11 args = [] \<or> (\<exists>f. drop 11 args = [''-testFilter'', f])"
    by (auto split: option.splits)
  have 4: "\<not> is_wsl w \<longrightarrow> take 11 args =
            [''-batchmode'', ''-projectPath'', proj, ''-runTests'', ''-testPlatform'', plat,
             ''-testResults'', rf, ''-logFile'', lf, ''-quit'']"
    using assms
    by (auto simp: build_args_def bind_prog_def return_prog_def to_windows_path_def)
  from 1 2 3 4 show ?thesis by blast
qed

text \<open>The amended C1 on a native host with the filter \<open>MyTest\<close>.\<close>

theorem build_args_order_witness:
  "build_args native_world ''/home/dev/proj'' ''EditMode'' ''out/r.xml'' ''out/r.log''
     (Some ''MyTest'') [] =
     (Inr [''-batchmode'', ''-projectPath'', ''/home/dev/proj'', ''-runTests'',
           ''-testPlatform'', ''EditMode'', ''-testResults'', ''out/r.xml'',
           ''-logFile'', ''out/r.log'', ''-quit'', ''-testFilter'', ''MyTest''], []) \<and>
   take 11 [''-batchmode'', ''-projectPath'', ''/home/dev/proj'', ''-runTests'',
           ''-testPlatform'', ''EditMode'', ''-testResults'', ''out/r.xml'',
           ''-logFile'', ''out/r.log'', ''-quit'', ''-testFilter'', ''MyTest''] =
     [''-batchmode'', ''-projectPath'', ''/home/dev/proj'', ''-runTests'',
           ''-testPlatform'', ''EditMode'', ''-testResults'', ''out/r.xml'',
           ''-logFile'', ''out/r.log'', ''-quit'']"
proof -
  have h: "build_args native_world ''/home/dev/proj'' ''EditMode'' ''out/r.xml'' ''out/r.log''
     (Some ''MyTest'') [] =
     (Inr [''-batchmode'', ''-projectPath'', ''/home/dev/proj'', ''-runTests'',
           ''-testPlatform'', ''EditMode'', ''-testResults'', ''out/r.xml'',
           ''-logFile'', ''out/r.log'', ''-quit'', ''-testFilter'', ''MyTest''], [])"
    by (simp add: build_args_def bind_prog_def return_prog_def to_windows_path_def is_wsl_def
      native_world_def)
  have n: "\<not> is_wsl native_world"
    by (simp add: is_wsl_def native_world_def)
  from build_args_order [OF h] n h show ?thesis by blast
qed

section \<open>Command sequencer\<close>

text \<open>
  Claim C5. In \<open>single\<close> mode without a (non-empty) filter, and in \<open>single\<close> or
  \<open>suite\<close> mode without a platform, \<open>main\<close> fails with the matching
  configuration message and returns the trace it was given: no converter, no runner,
  no directory and no output came before the failure.
\<close>

theorem main_missing_option:
  assumes "(command a = Single \<and> \<not> truthy (filter_arg a)) \<or>
           ((command a = Single \<or> command a = Suite) \<and> platform a = None)"
  shows "main w a t =
     (Inl (SystemExit
        (if platform a = None then ''Error: '' @ command_name (command a) @ '' requires --platform.''
         else ''Error: single requires --filter.'')), t)"
  using assms by (auto simp: main_def raise_prog_def)

text \<open>C5 for \<open>single\<close> without a filter and for \<open>suite\<close> without a platform.\<close>

theorem main_missing_option_witness:
  "main native_world
     \<lparr>command = Single, platform = Some EditMode, filter_arg = None, unity = None,
      project_path = ''/home/dev/proj'', results_dir = ''Temp/AIValidation'',
      logs_dir = ''Temp/AIValidation/logs'', dry_run = False\<rparr> [] =
     (Inl (SystemExit ''Error: single requires --filter.''), []) \<and>
   main native_world
     \<lparr>command = Suite, platform = None, filter_arg = None, unity = None,
      project_path = ''/home/dev/proj'', results_dir = ''Temp/AIValidation'',
      logs_dir = ''Temp/AIValidation/logs'', dry_run = False\<rparr> [] =
     (Inl (SystemExit ''Error: suite requires --platform.''), [])"
  using main_missing_option [of "\<lparr>command = Single, platform = Some EditMode, filter_arg = None,
      unity = None, project_path = ''/home/dev/proj'', results_dir = ''Temp/AIValidation'',
      logs_dir = ''Temp/AIValidation/logs'', dry_run = False\<rparr>" native_world "[]"]
    main_missing_option [of "\<lparr>command = Suite, platform = None, filter_arg = None,
      unity = None, project_path = ''/home/dev/proj'', results_dir = ''Temp/AIValidation'',
      logs_dir = ''Temp/AIValidation/logs'', dry_run = False\<rparr>" native_world "[]"]
  by (simp add: truthy_def command_name_def)

section \<open>Traces of the builder, the executor and the sequencer\<close>

text \<open>
  Each function extends the trace it is given. The lemmas below say by what: the path
  translator and the builder add converter launches only, and \<open>run_one\<close> adds them,
  the three progress lines, and then either the dry-run line or the runner launch.
\<close>

lemma runner_launches_append [simp]:
  "runner_launches (xs @ ys) = runner_launches xs @ runner_launches ys"
  by (induction xs rule: runner_launches.induct) simp_all

lemma printed_append [simp]: "printed (xs @ ys) = printed xs @ printed ys"
  by (induction xs rule: printed.induct) simp_all

lemma runner_launches_converters [simp]:
  "list_all is_converter cs \<Longrightarrow> runner_launches cs = []"
  by (induction cs rule: runner_launches.induct) simp_all

lemma printed_converters [simp]:
  "list_all is_converter cs \<Longrightarrow> printed cs = []"
  by (induction cs rule: printed.induct) simp_all

lemma run_wslpath_cases:
  "run_wslpath w arg v t =
     (if returncode (wslpath_run w t [''wslpath'', arg, v]) \<noteq> 0
      then Inl (conversion_error v)
      else Inr (strip (stdout (wslpath_run w t [''wslpath'', arg, v]))),
      t @ [Converter [''wslpath'', arg, v]])"
  by (simp add: run_wslpath_def Let_def conversion_error_def)

lemma run_wslpath_result:
  assumes "run_wslpath w arg v t = (r, t1)" and "is_wsl w"
  shows "\<exists>cs. t1 = t @ cs \<and> list_all is_converter cs \<and>
           (\<forall>e. r = Inl e \<longrightarrow> conversion_failure w e)"
proof -
  from assms(1) have t1: "t1 = t @ [Converter [''wslpath'', arg, v]]"
    by (simp add: run_wslpath_cases)
  have "\<forall>e. r = Inl e \<longrightarrow> conversion_failure w e"
  proof (intro allI impI)
    fix e assume e: "r = Inl e"
    show "conversion_failure w e"
    proof (cases "returncode (wslpath_run w t [''wslpath'', arg, v]) = 0")
      case True
      with assms(1) e show ?thesis by (simp add: run_wslpath_cases)
    next
      case False
      with assms(1) e have "e = conversion_error v" by (simp add: run_wslpath_cases)
      with False assms(2) show ?thesis unfolding conversion_failure_def by blast
    qed
  qed
  moreover have "list_all is_converter [Converter [''wslpath'', arg, v]]" by simp
  ultimately show ?thesis using t1 by blast
qed

lemma to_windows_path_result:
  assumes "to_windows_path w p t = (r, t1)"
  shows "\<exists>cs. t1 = t @ cs \<and> list_all is_converter cs \<and>
           (\<not> is_wsl w \<longrightarrow> r = Inr p \<and> cs = []) \<and>
           (\<forall>e. r = Inl e \<longrightarrow> conversion_failure w e)"
proof (cases "is_wsl w")
  case True
  with assms have "run_wslpath w ''-w'' p t = (r, t1)"
    by (simp add: to_windows_path_def)
  from run_wslpath_result [OF this True] True show ?thesis by blast
next
  case False
  with assms have "r = Inr p" "t1 = t @ []"
    by (simp_all add: to_windows_path_def return_prog_def)
  with False show ?thesis by force
qed

lemma to_unix_path_result:
  assumes "to_unix_path w p t = (r, t1)"
  shows "\<exists>cs. t1 = t @ cs \<and> list_all is_converter cs \<and>
           (\<forall>e. r = Inl e \<longrightarrow> conversion_failure w e)"
proof (cases "is_wsl w \<and> looks_like_windows_path p")
  case True
  with assms have "run_wslpath w ''-u'' p t = (r, t1)"
    by (simp add: to_unix_path_def)
  from run_wslpath_result [OF this] True show ?thesis by blast
next
  case False
  with assms have "r = Inr p" "t1 = t @ []"
    by (auto simp add: to_unix_path_def return_prog_def)
  then show ?thesis by force
qed

lemma build_args_unfold:
  "build_args w proj plat rf lf flt t =
     (case to_windows_path w proj t of
        (Inl e, t1) \<Rightarrow> (Inl e, t1)
      | (Inr p, t1) \<Rightarrow>
         (case to_windows_path w rf t1 of
            (Inl e, t2) \<Rightarrow> (Inl e, t2)
          | (Inr x, t2) \<Rightarrow>
             (case to_windows_path w lf t2 of
                (Inl e, t3) \<Rightarrow> (Inl e, t3)
              | (Inr l, t3) \<Rightarrow> (Inr (fixed_flags p plat x l @ filter_pair flt), t3))))"
  by (simp add: build_args_def bind_prog_def return_prog_def fixed_flags_def filter_pair_def
      split: prod.splits sum.splits)

lemma build_args_result:
  assumes "build_args w proj plat rf lf flt t = (r, t')"
  shows "\<exists>cs. t' = t @ cs \<and> list_all is_converter cs \<and>
           (\<forall>e. r = Inl e \<longrightarrow> conversion_failure w e) \<and>
           (\<forall>args. r = Inr args \<longrightarrow> (\<exists>p x l.
              (\<not> is_wsl w \<longrightarrow> p = proj \<and> x = rf \<and> l = lf) \<and>
              args = fixed_flags p plat x l @ filter_pair flt))"
proof -
  obtain r1 t1 where a: "to_windows_path w proj t = (r1, t1)"
    by (cases "to_windows_path w proj t")
  from to_windows_path_result [OF a] obtain cs1 where
    c1: "t1 = t @ cs1" "list_all is_converter cs1" "\<not> is_wsl w \<longrightarrow> r1 = Inr proj \<and> cs1 = []"
        "\<forall>e. r1 = Inl e \<longrightarrow> conversion_failure w e" by blast
  show ?thesis
  proof (cases r1)
    case (Inl e)
    with a assms have "r = Inl e" "t' = t1" by (simp_all add: build_args_unfold)
    with c1 Inl show ?thesis by blast
  next
    case (Inr p)
    obtain r2 t2 where b: "to_windows_path w rf t1 = (r2, t2)"
      by (cases "to_windows_path w rf t1")
    from to_windows_path_result [OF b] obtain cs2 where
      c2: "t2 = t1 @ cs2" "list_all is_converter cs2" "\<not> is_wsl w \<longrightarrow> r2 = Inr rf \<and> cs2 = []"
        "\<forall>e. r2 = Inl e \<longrightarrow> conversion_failure w e" by blast
    from c1 c2 have t2: "t2 = t @ (cs1 @ cs2)" "list_all is_converter (cs1 @ cs2)" by simp_all
    show ?thesis
    proof (cases r2)
      case (Inl e)
      with Inr a b assms have "r = Inl e" "t' = t2" by (simp_all add: build_args_unfold)
      with t2 c2 Inl show ?thesis by blast
    next
      case r2: (Inr x)
      obtain r3 t3 where c: "to_windows_path w lf t2 = (r3, t3)"
        by (cases "to_windows_path w lf t2")
      from to_windows_path_result [OF c] obtain cs3 where
        c3: "t3 = t2 @ cs3" "list_all is_converter cs3" "\<not> is_wsl w \<longrightarrow> r3 = Inr lf \<and> cs3 = []"
          "\<forall>e. r3 = Inl e \<longrightarrow> conversion_failure w e" by blast
      from t2 c3 have t3: "t3 = t @ (cs1 @ cs2 @ cs3)" "list_all is_converter (cs1 @ cs2 @ cs3)"
        by simp_all
      show ?thesis
      proof (cases r3)
        case (Inl e)
        with Inr r2 a b c assms have "r = Inl e" "t' = t3" by (simp_all add: build_args_unfold)
        with t3 c3 Inl show ?thesis by blast
      next
        case r3: (Inr l)
        with Inr r2 a b c assms have
          "r = Inr (fixed_flags p plat x l @ filter_pair flt)" "t' = t3"
          by (simp_all add: build_args_unfold)
        moreover from c1 c2 c3 Inr r2 r3 have "\<not> is_wsl w \<longrightarrow> p = proj \<and> x = rf \<and> l = lf"
          by simp
        ultimately show ?thesis using t3 by blast
      qed
    qed
  qed
qed

lemma run_one_unfold:
  "run_one w u proj plat rf lf flt dry t =
     (case build_args w proj plat rf lf flt t of
        (Inl e, t1) \<Rightarrow> (Inl e, t1)
      | (Inr args, t1) \<Rightarrow>
          (if dry
           then (Inr (), t1 @ progress plat rf lf @ [dry_run_line (u # args)])
           else (if unity_run w (t1 @ progress plat rf lf) (u # args) \<noteq> 0
                 then Inl (runner_failed (unity_run w (t1 @ progress plat rf lf) (u # args)))
                 else Inr (),
                 t1 @ progress plat rf lf @ [Runner (u # args)])))"
  by (simp add: run_one_def bind_prog_def emit_def Let_def progress_def runner_failed_def
      dry_run_line_def split: prod.splits sum.splits)

lemma run_one_result:
  assumes "run_one w u proj plat rf lf flt dry t = (r, t')"
  shows "\<exists>cs. list_all is_converter cs \<and>
     ((\<exists>e. r = Inl e \<and> conversion_failure w e \<and> t' = t @ cs) \<or>
      (\<exists>p x l. (\<not> is_wsl w \<longrightarrow> p = proj \<and> x = rf \<and> l = lf) \<and>
         (dry \<longrightarrow> r = Inr () \<and>
            t' = t @ cs @ progress plat rf lf @
                 [dry_run_line (u # fixed_flags p plat x l @ filter_pair flt)]) \<and>
         (\<not> dry \<longrightarrow>
            t' = t @ cs @ progress plat rf lf @
                 [Runner (u # fixed_flags p plat x l @ filter_pair flt)] \<and>
            r = (if unity_run w (t @ cs @ progress plat rf lf)
                      (u # fixed_flags p plat x l @ filter_pair flt) \<noteq> 0
                 then Inl (runner_failed (unity_run w (t @ cs @ progress plat rf lf)
                      (u # fixed_flags p plat x l @ filter_pair flt)))
                 else Inr ()))))"
proof -
  obtain rb tb where b: "build_args w proj plat rf lf flt t = (rb, tb)"
    by (cases "build_args w proj plat rf lf flt t")
  from build_args_result [OF b] obtain cs where
    cs: "tb = t @ cs" "list_all is_converter cs"
    and err: "\<forall>e. rb = Inl e \<longrightarrow> conversion_failure w e"
    and ok: "\<forall>args. rb = Inr args \<longrightarrow> (\<exists>p x l.
              (\<not> is_wsl w \<longrightarrow> p = proj \<and> x = rf \<and> l = lf) \<and>
              args = fixed_flags p plat x l @ filter_pair flt)"
    by blast
  show ?thesis
  proof (cases rb)
    case (Inl e)
    with b assms have "r = Inl e" "t' = tb" by (simp_all add: run_one_unfold)
    with cs err Inl show ?thesis by blast
  next
    case (Inr args)
    with ok obtain p x l where
      shape: "\<not> is_wsl w \<longrightarrow> p = proj \<and> x = rf \<and> l = lf"
        "args = fixed_flags p plat x l @ filter_pair flt"
      by blast
    have d: "dry \<longrightarrow> r = Inr () \<and>
            t' = t @ cs @ progress plat rf lf @
                 [dry_run_line (u # fixed_flags p plat x l @ filter_pair flt)]"
      using assms b Inr cs(1) shape(2) by (auto simp add: run_one_unfold)
    have n: "\<not> dry \<longrightarrow>
            t' = t @ cs @ progress plat rf lf @
                 [Runner (u # fixed_flags p plat x l @ filter_pair flt)] \<and>
            r = (if unity_run w (t @ cs @ progress plat rf lf)
                      (u # fixed_flags p plat x l @ filter_pair flt) \<noteq> 0
                 then Inl (runner_failed (unity_run w (t @ cs @ progress plat rf lf)
                      (u # fixed_flags p plat x l @ filter_pair flt)))
                 else Inr ())"
      using assms b Inr cs(1) shape(2) by (auto simp add: run_one_unfold)
    from d n shape(1) cs(2) show ?thesis by blast
  qed
qed

lemma main_unfold:
  "main w a t =
     (if (command a = Single \<or> command a = Suite) \<and> platform a = None
      then (Inl (SystemExit (''Error: '' @ command_name (command a) @ '' requires --platform.'')), t)
      else if command a = Single \<and> \<not> truthy (filter_arg a)
      then (Inl (SystemExit ''Error: single requires --filter.''), t)
      else
        (case resolve_unity_path w (unity a) (dry_run a) t of
           (Inl e, t0) \<Rightarrow> (Inl e, t0)
         | (Inr u, t0) \<Rightarrow>
            (case
              (case command a of
                 Single \<Rightarrow>
                   run_one w u (path_resolve w (project_path a)) (platform_str (platform a))
                     (joinpath w (results_dir a) (platform_str (platform a) @ ''-single-'' @
                        strftime_now w (t0 @ [Mkdir (results_dir a), Mkdir (logs_dir a)]) @ ''.xml''))
                     (joinpath w (logs_dir a) (platform_str (platform a) @ ''-single-'' @
                        strftime_now w (t0 @ [Mkdir (results_dir a), Mkdir (logs_dir a)]) @ ''.log''))
                     (filter_arg a) (dry_run a)
                     (t0 @ [Mkdir (results_dir a), Mkdir (logs_dir a)])
               | Suite \<Rightarrow>
                   run_one w u (path_resolve w (project_path a)) (platform_str (platform a))
                     (joinpath w (results_dir a) (platform_str (platform a) @ ''-suite-'' @
                        strftime_now w (t0 @ [Mkdir (results_dir a), Mkdir (logs_dir a)]) @ ''.xml''))
                     (joinpath w (logs_dir a) (platform_str (platform a) @ ''-suite-'' @
                        strftime_now w (t0 @ [Mkdir (results_dir a), Mkdir (logs_dir a)]) @ ''.log''))
                     None (dry_run a)
                     (t0 @ [Mkdir (results_dir a), Mkdir (logs_dir a)])
               | Full \<Rightarrow>
                   (case run_one w u (path_resolve w (project_path a)) ''EditMode''
                     (joinpath w (results_dir a) (''EditMode-suite-'' @
                        strftime_now w (t0 @ [Mkdir (results_dir a), Mkdir (logs_dir a)]) @ ''.xml''))
                     (joinpath w (logs_dir a) (''EditMode-suite-'' @
                        strftime_now w (t0 @ [Mkdir (results_dir a), Mkdir (logs_dir a)]) @ ''.log''))
                     None (dry_run a)
                     (t0 @ [Mkdir (results_dir a), Mkdir (logs_dir a)]) of
                      (Inl e, t1) \<Rightarrow> (Inl e, t1)
                    | (Inr x, t1) \<Rightarrow>
                       run_one w u (path_resolve w (project_path a)) ''PlayMode''
                         (joinpath w (results_dir a) (''PlayMode-suite-'' @
                            strftime_now w (t0 @ [Mkdir (results_dir a), Mkdir (logs_dir a)]) @ ''.xml''))
                         (joinpath w (logs_dir a) (''PlayMode-suite-'' @
                            strftime_now w (t0 @ [Mkdir (results_dir a), Mkdir (logs_dir a)]) @ ''.log''))
                         None (dry_run a) t1)) of
               (Inl e, t2) \<Rightarrow> (Inl e, t2)
             | (Inr x, t2) \<Rightarrow> (Inr (), t2 @ [Print ''[validate] done'']))))"
  by (simp add: main_def bind_prog_def emit_def raise_prog_def Let_def
      split: command.splits prod.splits sum.splits)


lemma runner_launches_progress [simp]: "runner_launches (progress plat rf lf) = []"
  by (simp add: progress_def)

lemma printed_progress [simp]:
  "printed (progress plat rf lf) =
     [''[validate] platform='' @ plat, ''[validate] results='' @ rf, ''[validate] log='' @ lf]"
  by (simp add: progress_def)

lemma filter_pair_None [simp]: "filter_pair None = []"
  by (simp add: filter_pair_def)

section \<open>Dry runs\<close>

lemma resolve_unity_path_unfold:
  "resolve_unity_path w cli dry t =
     (case py_or cli (environ w ''UNITY_EDITOR_PATH'') of
        None \<Rightarrow> (Inl path_required, t)
      | Some raw \<Rightarrow>
          if raw = [] then (Inl path_required, t)
          else (case to_unix_path w raw t of
                  (Inl e, t1) \<Rightarrow> (Inl e, t1)
                | (Inr u, t1) \<Rightarrow>
                    if \<not> dry \<and> \<not> is_file w u then (Inl (not_found u), t1) else (Inr u, t1)))"
  by (simp add: resolve_unity_path_def bind_prog_def raise_prog_def return_prog_def
      path_required_def not_found_def split: option.splits prod.splits sum.splits)

lemma resolve_unity_path_result:
  assumes "resolve_unity_path w cli dry t = (r, t0)"
  shows "\<exists>cs. t0 = t @ cs \<and> list_all is_converter cs \<and>
           (\<forall>e. r = Inl e \<longrightarrow>
              e = path_required \<or> conversion_failure w e \<or> (\<not> dry \<and> (\<exists>p. e = not_found p)))"
proof (cases "py_or cli (environ w ''UNITY_EDITOR_PATH'')")
  case None
  with assms have "r = Inl path_required" "t0 = t @ []"
    by (simp_all add: resolve_unity_path_unfold)
  then show ?thesis by force
next
  case (Some raw)
  show ?thesis
  proof (cases "raw = []")
    case True
    with Some assms have "r = Inl path_required" "t0 = t @ []"
      by (simp_all add: resolve_unity_path_unfold)
    then show ?thesis by force
  next
    case False
    obtain r1 t1 where a: "to_unix_path w raw t = (r1, t1)"
      by (cases "to_unix_path w raw t")
    from to_unix_path_result [OF a] obtain cs where
      cs: "t1 = t @ cs" "list_all is_converter cs" "\<forall>e. r1 = Inl e \<longrightarrow> conversion_failure w e"
      by blast
    show ?thesis
    proof (cases r1)
      case (Inl e)
      with Some False a assms have "r = Inl e" "t0 = t1"
        by (simp_all add: resolve_unity_path_unfold)
      with cs Inl show ?thesis by blast
    next
      case (Inr u)
      with Some False a assms have
        "t0 = t1" "\<forall>e. r = Inl e \<longrightarrow> \<not> dry \<and> e = not_found u"
        by (auto simp add: resolve_unity_path_unfold split: if_splits)
      with cs show ?thesis by blast
    qed
  qed
qed

lemma runner_launches_dry_run_line [simp]: "runner_launches [dry_run_line cmd] = []"
  by (simp add: dry_run_line_def)

lemma run_one_dry:
  assumes "run_one w u proj plat rf lf flt True t = (r, t')"
  shows "runner_launches t' = runner_launches t \<and> (\<forall>e. r = Inl e \<longrightarrow> conversion_failure w e)"
proof -
  from run_one_result [OF assms] obtain cs where
    cs: "list_all is_converter cs"
      "(\<exists>e. r = Inl e \<and> conversion_failure w e \<and> t' = t @ cs) \<or>
       (\<exists>p x l. r = Inr () \<and>
            t' = t @ cs @ progress plat rf lf @
                 [dry_run_line (u # fixed_flags p plat x l @ filter_pair flt)])"
    by blast
  from cs(2) show ?thesis
  proof
    assume "\<exists>e. r = Inl e \<and> conversion_failure w e \<and> t' = t @ cs"
    with cs(1) show ?thesis by auto
  next
    assume "\<exists>p x l. r = Inr () \<and>
            t' = t @ cs @ progress plat rf lf @
                 [dry_run_line (u # fixed_flags p plat x l @ filter_pair flt)]"
    with cs(1) show ?thesis by auto
  qed
qed

lemma not_found_distinct:
  "path_required \<noteq> not_found p"
  "conversion_error v \<noteq> not_found p"
  "SystemExit ''Error: single requires --filter.'' \<noteq> not_found p"
  "SystemExit (''Error: '' @ command_name c @ '' requires --platform.'') \<noteq> not_found p"
  by (cases c; simp add: path_required_def conversion_error_def not_found_def command_name_def)+

lemma conversion_failure_not_found: "conversion_failure w e \<Longrightarrow> e \<noteq> not_found p"
  by (auto simp: conversion_failure_def not_found_distinct)

lemma main_dispatch:
  "main w a t =
     (if (command a = Single \<or> command a = Suite) \<and> platform a = None
      then (Inl (SystemExit (''Error: '' @ command_name (command a) @ '' requires --platform.'')), t)
      else if command a = Single \<and> \<not> truthy (filter_arg a)
      then (Inl (SystemExit ''Error: single requires --filter.''), t)
      else
        (case resolve_unity_path w (unity a) (dry_run a) t of
           (Inl e, t0) \<Rightarrow> (Inl e, t0)
         | (Inr u, t0) \<Rightarrow>
            (case dispatch w a u (t0 @ [Mkdir (results_dir a), Mkdir (logs_dir a)]) of
               (Inl e, t2) \<Rightarrow> (Inl e, t2)
             | (Inr x, t2) \<Rightarrow> (Inr (), t2 @ [Print ''[validate] done'']))))"
  unfolding dispatch_def by (rule main_unfold)

lemma main_result:
  assumes "main w a t = (r, t')"
  shows "(t' = t \<and> (r = Inl (SystemExit (''Error: '' @ command_name (command a) @
                                 '' requires --platform.'')) \<or>
                     r = Inl (SystemExit ''Error: single requires --filter.''))) \<or>
         (\<exists>e. resolve_unity_path w (unity a) (dry_run a) t = (Inl e, t') \<and> r = Inl e) \<or>
         (\<exists>u t0 r2 t2. resolve_unity_path w (unity a) (dry_run a) t = (Inr u, t0) \<and>
            dispatch w a u (t0 @ [Mkdir (results_dir a), Mkdir (logs_dir a)]) = (r2, t2) \<and>
            ((\<exists>e. r2 = Inl e \<and> r = Inl e \<and> t' = t2) \<or>
             (r2 = Inr () \<and> r = Inr () \<and> t' = t2 @ [Print ''[validate] done''])))"
  using assms
  by (auto simp add: main_dispatch split: if_splits prod.splits sum.splits)

lemma dispatch_dry:
  assumes dry: "dry_run a" and run: "dispatch w a u t2 = (r, t')"
  shows "runner_launches t' = runner_launches t2 \<and> (\<forall>e. r = Inl e \<longrightarrow> conversion_failure w e)"
proof (cases "command a")
  case Single
  with dry run show ?thesis by (auto simp: dispatch_def dest: run_one_dry)
next
  case Suite
  with dry run show ?thesis by (auto simp: dispatch_def dest: run_one_dry)
next
  case Full
  let ?ts = "strftime_now w t2"
  obtain r1 t3 where e: "run_one w u (path_resolve w (project_path a)) ''EditMode''
                  (joinpath w (results_dir a) (''EditMode-suite-'' @ ?ts @ ''.xml''))
                  (joinpath w (logs_dir a) (''EditMode-suite-'' @ ?ts @ ''.log''))
                  None True t2 = (r1, t3)"
    by (cases "run_one w u (path_resolve w (project_path a)) ''EditMode''
                  (joinpath w (results_dir a) (''EditMode-suite-'' @ ?ts @ ''.xml''))
                  (joinpath w (logs_dir a) (''EditMode-suite-'' @ ?ts @ ''.log''))
                  None True t2")
  note one = run_one_dry [OF e]
  show ?thesis
  proof (cases r1)
    case (Inl x)
    with Full dry run e have "r = Inl x" "t' = t3" by (simp_all add: dispatch_def)
    with one Inl show ?thesis by simp
  next
    case (Inr y)
    with Full dry run e have p: "run_one w u (path_resolve w (project_path a)) ''PlayMode''
                 (joinpath w (results_dir a) (''PlayMode-suite-'' @ ?ts @ ''.xml''))
                 (joinpath w (logs_dir a) (''PlayMode-suite-'' @ ?ts @ ''.log''))
                 None True t3 = (r, t')"
      by (simp add: dispatch_def)
    from run_one_dry [OF p] one show ?thesis by simp
  qed
qed

lemma main_dry:
  assumes dry: "dry_run a" and run: "main w a t = (r, t')"
  shows "runner_launches t' = runner_launches t \<and> (\<forall>e p. r = Inl e \<longrightarrow> e \<noteq> not_found p)"
proof -
  from main_result [OF run] consider
    (cfg) "t' = t" "r = Inl (SystemExit (''Error: '' @ command_name (command a) @
                                 '' requires --platform.'')) \<or>
                     r = Inl (SystemExit ''Error: single requires --filter.'')"
  | (res) e where "resolve_unity_path w (unity a) (dry_run a) t = (Inl e, t')" "r = Inl e"
  | (run) u t0 r2 t2 where "resolve_unity_path w (unity a) (dry_run a) t = (Inr u, t0)"
      "dispatch w a u (t0 @ [Mkdir (results_dir a), Mkdir (logs_dir a)]) = (r2, t2)"
      "(\<exists>e. r2 = Inl e \<and> r = Inl e \<and> t' = t2) \<or>
       (r2 = Inr () \<and> r = Inr () \<and> t' = t2 @ [Print ''[validate] done''])"
    by blast
  then show ?thesis
  proof cases
    case cfg
    then show ?thesis
      using not_found_distinct(3,4) [THEN not_sym] by auto
  next
    case res
    from resolve_unity_path_result [OF res(1)] dry obtain cs where
      "t' = t @ cs" "list_all is_converter cs"
      "e = path_required \<or> conversion_failure w e"
      by blast
    with res(2) show ?thesis
      using not_found_distinct(1) [THEN not_sym] conversion_failure_not_found by auto
  next
    case run
    from resolve_unity_path_result [OF run(1)] obtain cs where
      cs: "t0 = t @ cs" "list_all is_converter cs" by blast
    from dispatch_dry [OF dry run(2)] have
      d: "runner_launches t2 = runner_launches (t0 @ [Mkdir (results_dir a), Mkdir (logs_dir a)])"
        "\<forall>e. r2 = Inl e \<longrightarrow> conversion_failure w e"
      by simp_all
    from d(1) cs have l: "runner_launches t2 = runner_launches t" by simp
    from run(3) show ?thesis
    proof
      assume "\<exists>e. r2 = Inl e \<and> r = Inl e \<and> t' = t2"
      with d(2) l show ?thesis using conversion_failure_not_found by auto
    next
      assume "r2 = Inr () \<and> r = Inr () \<and> t' = t2 @ [Print ''[validate] done'']"
      with l show ?thesis by simp
    qed
  qed
qed

lemma is_file_irrelevant:
  "is_wsl (w\<lparr>is_file := f\<rparr>) = is_wsl w"
  "run_wslpath (w\<lparr>is_file := f\<rparr>) = run_wslpath w"
  "to_unix_path (w\<lparr>is_file := f\<rparr>) = to_unix_path w"
  "to_windows_path (w\<lparr>is_file := f\<rparr>) = to_windows_path w"
  "build_args (w\<lparr>is_file := f\<rparr>) = build_args w"
  "run_one (w\<lparr>is_file := f\<rparr>) = run_one w"
  "resolve_unity_path (w\<lparr>is_file := f\<rparr>) cli True = resolve_unity_path w cli True"
proof -
  show a: "is_wsl (w\<lparr>is_file := f\<rparr>) = is_wsl w"
    by (simp add: is_wsl_def)
  show b: "run_wslpath (w\<lparr>is_file := f\<rparr>) = run_wslpath w"
    by (intro ext) (simp add: run_wslpath_def)
  show c: "to_unix_path (w\<lparr>is_file := f\<rparr>) = to_unix_path w"
    by (intro ext) (simp add: to_unix_path_def a b)
  show d: "to_windows_path (w\<lparr>is_file := f\<rparr>) = to_windows_path w"
    by (intro ext) (simp add: to_windows_path_def a b)
  show e: "build_args (w\<lparr>is_file := f\<rparr>) = build_args w"
    by (intro ext) (simp add: build_args_def d)
  show "run_one (w\<lparr>is_file := f\<rparr>) = run_one w"
    by (intro ext) (simp add: run_one_def e Let_def cong: if_cong)
  show "resolve_unity_path (w\<lparr>is_file := f\<rparr>) cli True = resolve_unity_path w cli True"
    by (intro ext) (simp add: resolve_unity_path_def c cong: if_cong option.case_cong)
qed

lemma main_is_file_irrelevant:
  assumes "dry_run a"
  shows "main (w\<lparr>is_file := f\<rparr>) a t = main w a t"
  using assms by (simp add: main_def is_file_irrelevant Let_def cong: if_cong command.case_cong)

text \<open>
  Claim C6. In a dry run, whatever the mode, \<open>main\<close> adds no runner launch to the
  trace, never fails with the editor-not-found error, and does not depend on which
  files exist: replacing the \<open>is_file\<close> oracle by any other changes neither the
  result nor the trace.
\<close>

theorem dry_run_never_launches:
  assumes "dry_run a"
  shows "runner_launches (snd (main w a t)) = runner_launches t \<and>
         (\<forall>p. fst (main w a t) \<noteq>
            Inl (SystemExit (''Error: Unity editor not found at '' @ [CHR 0x27] @ p @
                               [CHR 0x27] @ ''.''))) \<and>
         (\<forall>f. main (w\<lparr>is_file := f\<rparr>) a t = main w a t)"
proof -
  obtain r t' where m: "main w a t = (r, t')" by (cases "main w a t")
  from main_dry [OF assms m] have
    "runner_launches t' = runner_launches t" "\<forall>p. r \<noteq> Inl (not_found p)"
    by auto
  with m main_is_file_irrelevant [OF assms] show ?thesis
    by (simp add: not_found_def)
qed

text \<open>C6 on a dry run whose editor path is not a file.\<close>

theorem dry_run_never_launches_witness:
  "dry_run dry_request \<and> \<not> is_file native_world ''/no/such/Unity'' \<and>
   runner_launches (snd (main native_world dry_request [])) = [] \<and>
   fst (main native_world dry_request []) \<noteq>
     Inl (SystemExit (''Error: Unity editor not found at '' @ [CHR 0x27] @ ''/no/such/Unity'' @
                        [CHR 0x27] @ ''.''))"
proof -
  have d: "dry_run dry_request" by (simp add: dry_request_def)
  have n: "\<not> is_file native_world ''/no/such/Unity''" by (simp add: native_world_def)
  from dry_run_never_launches [OF d, of native_world "[]"] have
    a: "runner_launches (snd (main native_world dry_request [])) = runner_launches []" and
    b: "\<forall>p. fst (main native_world dry_request []) \<noteq>
            Inl (SystemExit (''Error: Unity editor not found at '' @ [CHR 0x27] @ p @
                               [CHR 0x27] @ ''.''))"
    by blast+
  from a have "runner_launches (snd (main native_world dry_request [])) = []" by simp
  with d n b [rule_format, of "''/no/such/Unity''"] show ?thesis by blast
qed

section \<open>The filter outside \<open>single\<close> mode\<close>

lemma converters_no_filter: "list_all is_converter cs \<Longrightarrow> list_all no_filter_event cs"
proof (induction cs)
  case Nil
  then show ?case by simp
next
  case (Cons e cs)
  then show ?case by (cases e) simp_all
qed

lemma progress_no_filter: "list_all no_filter_event (progress plat rf lf)"
  by (simp add: progress_def)

lemma run_one_no_filter:
  assumes "run_one w u proj plat rf lf None dry t = (r, t')"
  shows "\<exists>new. t' = t @ new \<and> list_all no_filter_event new"
proof -
  from run_one_result [OF assms] obtain cs where
    cs: "list_all is_converter cs"
      "t' = t @ cs \<or>
       (\<exists>p x l. (dry \<longrightarrow> t' = t @ cs @ progress plat rf lf @
                 [dry_run_line (u # fixed_flags p plat x l @ filter_pair None)]) \<and>
          (\<not> dry \<longrightarrow> t' = t @ cs @ progress plat rf lf @
                 [Runner (u # fixed_flags p plat x l @ filter_pair None)]))"
    by blast
  note c = converters_no_filter [OF cs(1)]
  from cs(2) show ?thesis
  proof
    assume "t' = t @ cs"
    with c show ?thesis by blast
  next
    assume "\<exists>p x l. (dry \<longrightarrow> t' = t @ cs @ progress plat rf lf @
                 [dry_run_line (u # fixed_flags p plat x l @ filter_pair None)]) \<and>
          (\<not> dry \<longrightarrow> t' = t @ cs @ progress plat rf lf @
                 [Runner (u # fixed_flags p plat x l @ filter_pair None)])"
    then obtain p x l where
      d: "dry \<longrightarrow> t' = t @ cs @ progress plat rf lf @ [dry_run_line (u # fixed_flags p plat x l)]"
      and n: "\<not> dry \<longrightarrow> t' = t @ cs @ progress plat rf lf @ [Runner (u # fixed_flags p plat x l)]"
      by auto
    have e1: "no_filter_event (dry_run_line (u # fixed_flags p plat x l))"
      unfolding dry_run_line_def no_filter_event.simps by blast
    have e2: "no_filter_event (Runner (u # fixed_flags p plat x l))"
      by auto
    show ?thesis
    proof (cases dry)
      case True
      with d have "t' = t @ (cs @ progress plat rf lf @ [dry_run_line (u # fixed_flags p plat x l)])"
        by simp
      moreover from c e1 have
        "list_all no_filter_event (cs @ progress plat rf lf @ [dry_run_line (u # fixed_flags p plat x l)])"
        by (simp add: progress_no_filter)
      ultimately show ?thesis by blast
    next
      case False
      with n have "t' = t @ (cs @ progress plat rf lf @ [Runner (u # fixed_flags p plat x l)])"
        by simp
      moreover from c e2 have
        "list_all no_filter_event (cs @ progress plat rf lf @ [Runner (u # fixed_flags p plat x l)])"
        by (simp add: progress_no_filter)
      ultimately show ?thesis by blast
    qed
  qed
qed

lemma dispatch_no_filter:
  assumes mode: "command a \<noteq> Single" and run: "dispatch w a u t2 = (r, t')"
  shows "\<exists>new. t' = t2 @ new \<and> list_all no_filter_event new"
proof (cases "command a")
  case Single
  with mode show ?thesis by simp
next
  case Suite
  with run show ?thesis by (auto simp: dispatch_def dest: run_one_no_filter)
next
  case Full
  let ?ts = "strftime_now w t2"
  obtain r1 t3 where e: "run_one w u (path_resolve w (project_path a)) ''EditMode''
                  (joinpath w (results_dir a) (''EditMode-suite-'' @ ?ts @ ''.xml''))
                  (joinpath w (logs_dir a) (''EditMode-suite-'' @ ?ts @ ''.log''))
                  None (dry_run a) t2 = (r1, t3)"
    by (cases "run_one w u (path_resolve w (project_path a)) ''EditMode''
                  (joinpath w (results_dir a) (''EditMode-suite-'' @ ?ts @ ''.xml''))
                  (joinpath w (logs_dir a) (''EditMode-suite-'' @ ?ts @ ''.log''))
                  None (dry_run a) t2")
  from run_one_no_filter [OF e] obtain n1 where
    n1: "t3 = t2 @ n1" "list_all no_filter_event n1" by blast
  show ?thesis
  proof (cases r1)
    case (Inl x)
    with Full run e have "t' = t3" by (simp add: dispatch_def)
    with n1 show ?thesis by blast
  next
    case (Inr y)
    with Full run e have p: "run_one w u (path_resolve w (project_path a)) ''PlayMode''
                 (joinpath w (results_dir a) (''PlayMode-suite-'' @ ?ts @ ''.xml''))
                 (joinpath w (logs_dir a) (''PlayMode-suite-'' @ ?ts @ ''.log''))
                 None (dry_run a) t3 = (r, t')"
      by (simp add: dispatch_def)
    from run_one_no_filter [OF p] obtain n2 where
      n2: "t' = t3 @ n2" "list_all no_filter_event n2" by blast
    from n1 n2 have "t' = t2 @ (n1 @ n2)" "list_all no_filter_event (n1 @ n2)" by simp_all
    then show ?thesis by blast
  qed
qed

lemma main_no_filter:
  assumes mode: "command a \<noteq> Single" and run: "main w a t = (r, t')"
  shows "\<exists>new. t' = t @ new \<and> list_all no_filter_event new"
proof -
  from main_result [OF run] consider
    (cfg) "t' = t"
  | (res) e where "resolve_unity_path w (unity a) (dry_run a) t = (Inl e, t')"
  | (run) u t0 r2 t2 where "resolve_unity_path w (unity a) (dry_run a) t = (Inr u, t0)"
      "dispatch w a u (t0 @ [Mkdir (results_dir a), Mkdir (logs_dir a)]) = (r2, t2)"
      "t' = t2 \<or> t' = t2 @ [Print ''[validate] done'']"
    by blast
  then show ?thesis
  proof cases
    case cfg
    then have "t' = t @ []" "list_all no_filter_event []" by simp_all
    then show ?thesis by blast
  next
    case res
    from resolve_unity_path_result [OF res] obtain cs where
      "t' = t @ cs" "list_all is_converter cs" by blast
    with converters_no_filter show ?thesis by blast
  next
    case run
    from resolve_unity_path_result [OF run(1)] obtain cs where
      cs: "t0 = t @ cs" "list_all is_converter cs" by blast
    from dispatch_no_filter [OF mode run(2)] obtain new where
      new: "t2 = (t0 @ [Mkdir (results_dir a), Mkdir (logs_dir a)]) @ new"
        "list_all no_filter_event new" by blast
    let ?n = "cs @ [Mkdir (results_dir a), Mkdir (logs_dir a)] @ new"
    from cs new have a: "t2 = t @ ?n" by simp
    from converters_no_filter [OF cs(2)] new(2) have b: "list_all no_filter_event ?n" by simp
    from run(3) show ?thesis
    proof
      assume "t' = t2"
      with a b show ?thesis by blast
    next
      assume "t' = t2 @ [Print ''[validate] done'']"
      with a have "t' = t @ (?n @ [Print ''[validate] done''])" by simp
      moreover from b have "list_all no_filter_event (?n @ [Print ''[validate] done''])" by simp
      ultimately show ?thesis by blast
    qed
  qed
qed

lemma no_filter_launches:
  "list_all no_filter_event es \<Longrightarrow>
   \<forall>cmd\<in>set (runner_launches es). \<exists>u p plat x l. cmd = u # fixed_flags p plat x l"
  by (induction es rule: runner_launches.induct) auto

lemma no_filter_printed:
  "list_all no_filter_event es \<Longrightarrow>
   \<forall>s\<in>set (printed es). take 10 s = ''[dry-run] '' \<longrightarrow>
      (\<exists>u p plat x l. Print s = dry_run_line (u # fixed_flags p plat x l))"
  by (induction es rule: printed.induct) auto

lemma main_filter_ignored:
  assumes "command a \<noteq> Single"
  shows "main w (a\<lparr>filter_arg := f\<rparr>) t = main w a t"
  using assms by (cases "command a") (simp_all add: main_def)

text \<open>
  Claim C10. In \<open>suite\<close> and \<open>full\<close> mode the filter on the command line is ignored:
  \<open>main\<close> returns the same result and the same trace whatever the filter is, every
  runner launch it adds has the executable and the eleven fixed arguments ending in
  \<open>-quit\<close> as its whole command line, and every dry-run line it prints quotes such a
  command line, so no filter pair is ever built.
\<close>

theorem suite_and_full_ignore_filter:
  assumes "command a \<noteq> Single"
  shows "(\<forall>f. main w (a\<lparr>filter_arg := f\<rparr>) t = main w a t) \<and>
         (\<exists>new. snd (main w a t) = t @ new \<and>
            (\<forall>cmd\<in>set (runner_launches new). \<exists>u p plat x l. cmd =
               [u, ''-batchmode'', ''-projectPath'', p, ''-runTests'', ''-testPlatform'', plat,
                ''-testResults'', x, ''-logFile'', l, ''-quit'']) \<and>
            (\<forall>s\<in>set (printed new). take 10 s = ''[dry-run] '' \<longrightarrow>
               (\<exists>u p plat x l. s = ''[dry-run] '' @ join '' '' (map quote
                  [u, ''-batchmode'', ''-projectPath'', p, ''-runTests'', ''-testPlatform'', plat,
                   ''-testResults'', x, ''-logFile'', l, ''-quit'']))))"
proof -
  obtain r t' where m: "main w a t = (r, t')" by (cases "main w a t")
  from main_no_filter [OF assms m] obtain new where
    new: "t' = t @ new" "list_all no_filter_event new" by blast
  from no_filter_launches [OF new(2)] have
    l: "\<forall>cmd\<in>set (runner_launches new). \<exists>u p plat x l. cmd =
               [u, ''-batchmode'', ''-projectPath'', p, ''-runTests'', ''-testPlatform'', plat,
                ''-testResults'', x, ''-logFile'', l, ''-quit'']"
    unfolding fixed_flags_def .
  from no_filter_printed [OF new(2)] have
    p: "\<forall>s\<in>set (printed new). take 10 s = ''[dry-run] '' \<longrightarrow>
               (\<exists>u p plat x l. s = ''[dry-run] '' @ join '' '' (map quote
                  [u, ''-batchmode'', ''-projectPath'', p, ''-runTests'', ''-testPlatform'', plat,
                   ''-testResults'', x, ''-logFile'', l, ''-quit'']))"
    unfolding fixed_flags_def dry_run_line_def event.inject .
  from m new(1) have "snd (main w a t) = t @ new" by simp
  with l p have "\<exists>new. snd (main w a t) = t @ new \<and>
            (\<forall>cmd\<in>set (runner_launches new). \<exists>u p plat x l. cmd =
               [u, ''-batchmode'', ''-projectPath'', p, ''-runTests'', ''-testPlatform'', plat,
                ''-testResults'', x, ''-logFile'', l, ''-quit'']) \<and>
            (\<forall>s\<in>set (printed new). take 10 s = ''[dry-run] '' \<longrightarrow>
               (\<exists>u p plat x l. s = ''[dry-run] '' @ join '' '' (map quote
                  [u, ''-batchmode'', ''-projectPath'', p, ''-runTests'', ''-testPlatform'', plat,
                   ''-testResults'', x, ''-logFile'', l, ''-quit''])))"
    by blast
  with main_filter_ignored [OF assms] show ?thesis by blast
qed

text \<open>C10 on a \<open>suite\<close> command line that carries the filter \<open>MyTest\<close>.\<close>

theorem suite_and_full_ignore_filter_witness:
  "command suite_request \<noteq> Single \<and> filter_arg suite_request = Some ''MyTest'' \<and>
   main native_world (suite_request\<lparr>filter_arg := None\<rparr>) [] = main native_world suite_request [] \<and>
   runner_launches (snd (main native_world suite_request [])) =
     [[''/opt/Unity/Editor/Unity'', ''-batchmode'', ''-projectPath'', ''/home/dev/proj'',
       ''-runTests'', ''-testPlatform'', ''PlayMode'',
       ''-testResults'', ''Temp/AIValidation/PlayMode-suite-20240101-120000.xml'',
       ''-logFile'', ''Temp/AIValidation/logs/PlayMode-suite-20240101-120000.log'', ''-quit'']]"
proof -
  have c: "command suite_request \<noteq> Single" "filter_arg suite_request = Some ''MyTest''"
    by (simp_all add: suite_request_def)
  from suite_and_full_ignore_filter [OF c(1), of native_world "[]"] have
    a: "main native_world (suite_request\<lparr>filter_arg := None\<rparr>) [] = main native_world suite_request []"
    by blast
  have b: "runner_launches (snd (main native_world suite_request [])) =
     [[''/opt/Unity/Editor/Unity'', ''-batchmode'', ''-projectPath'', ''/home/dev/proj'',
       ''-runTests'', ''-testPlatform'', ''PlayMode'',
       ''-testResults'', ''Temp/AIValidation/PlayMode-suite-20240101-120000.xml'',
       ''-logFile'', ''Temp/AIValidation/logs/PlayMode-suite-20240101-120000.log'', ''-quit'']]"
    by (simp add: main_def bind_prog_def emit_def return_prog_def raise_prog_def
        resolve_unity_path_def py_or_def truthy_def to_unix_path_def to_windows_path_def
        is_wsl_def run_one_def build_args_def platform_str_def platform_name_def
        native_world_def suite_request_def Let_def)
  from c a b show ?thesis by blast
qed

section \<open>Executable resolver\<close>

text \<open>The resolver on a non-empty explicit path, and its fallback to the environment.\<close>

lemma resolve_unity_path_explicit:
  assumes "c \<noteq> []"
  shows "resolve_unity_path w (Some c) dry t =
        (case to_unix_path w c t of
           (Inl e, t1) \<Rightarrow> (Inl e, t1)
         | (Inr u, t1) \<Rightarrow>
             if \<not> dry \<and> \<not> is_file w u
             then (Inl (SystemExit (''Error: Unity editor not found at '' @ [CHR 0x27] @ u @
                                      [CHR 0x27] @ ''.'')), t1)
             else (Inr u, t1))"
  using assms resolve_unity_path_unfold [of w "Some c" dry t, unfolded not_found_def]
  by (simp add: py_or_def truthy_def)

lemma resolve_unity_path_native:
  assumes "c \<noteq> []" and "\<not> is_wsl w" and "dry \<or> is_file w c"
  shows "resolve_unity_path w (Some c) dry t = (Inr c, t)"
  using assms by (auto simp: resolve_unity_path_explicit to_unix_path_def return_prog_def)

lemma resolve_unity_path_fallback:
  assumes "environ w ''UNITY_EDITOR_PATH'' = Some v" and "v \<noteq> []"
  shows "resolve_unity_path w (Some []) dry t = resolve_unity_path w (Some v) dry t"
  using assms by (simp add: resolve_unity_path_def py_or_def truthy_def)

text \<open>
  Claim C9. An explicit executable path that is the empty string is treated as absent:
  the resolver does what it does with no explicit path at all. With a non-empty
  \<open>UNITY_EDITOR_PATH\<close> it resolves the variable's value: that value is what goes
  through \<open>to_unix_path\<close> and the existence check, and outside the compatibility layer
  it is the path returned. With the variable unset or empty it fails with the
  path-required error before doing anything else. Precedence is by truthiness: any
  non-empty explicit path is the one resolved, whatever the variable holds.
\<close>

theorem resolve_unity_path_empty_explicit:
  "resolve_unity_path w (Some []) dry t = resolve_unity_path w None dry t \<and>
   (\<forall>v. environ w ''UNITY_EDITOR_PATH'' = Some v \<and> v \<noteq> [] \<longrightarrow>
      resolve_unity_path w (Some []) dry t = resolve_unity_path w (Some v) dry t \<and>
      resolve_unity_path w (Some []) dry t =
        (case to_unix_path w v t of
           (Inl e, t1) \<Rightarrow> (Inl e, t1)
         | (Inr u, t1) \<Rightarrow>
             if \<not> dry \<and> \<not> is_file w u
             then (Inl (SystemExit (''Error: Unity editor not found at '' @ [CHR 0x27] @ u @
                                      [CHR 0x27] @ ''.'')), t1)
             else (Inr u, t1)) \<and>
      (\<not> is_wsl w \<and> (dry \<or> is_file w v) \<longrightarrow>
         resolve_unity_path w (Some []) dry t = (Inr v, t))) \<and>
   (environ w ''UNITY_EDITOR_PATH'' = None \<or> environ w ''UNITY_EDITOR_PATH'' = Some [] \<longrightarrow>
      resolve_unity_path w (Some []) dry t =
        (Inl (SystemExit ''Error: Unity path is required. Use --unity or set UNITY_EDITOR_PATH.''),
         t)) \<and>
   (\<forall>c. c \<noteq> [] \<longrightarrow>
      resolve_unity_path w (Some c) dry t =
        (case to_unix_path w c t of
           (Inl e, t1) \<Rightarrow> (Inl e, t1)
         | (Inr u, t1) \<Rightarrow>
             if \<not> dry \<and> \<not> is_file w u
             then (Inl (SystemExit (''Error: Unity editor not found at '' @ [CHR 0x27] @ u @
                                      [CHR 0x27] @ ''.'')), t1)
             else (Inr u, t1)) \<and>
      (\<not> is_wsl w \<and> (dry \<or> is_file w c) \<longrightarrow>
         resolve_unity_path w (Some c) dry t = (Inr c, t)))"
proof -
  have a: "resolve_unity_path w (Some []) dry t = resolve_unity_path w None dry t"
    by (simp add: resolve_unity_path_def py_or_def truthy_def)
  have b: "\<forall>v. environ w ''UNITY_EDITOR_PATH'' = Some v \<and> v \<noteq> [] \<longrightarrow>
      resolve_unity_path w (Some []) dry t = resolve_unity_path w (Some v) dry t \<and>
      resolve_unity_path w (Some []) dry t =
        (case to_unix_path w v t of
           (Inl e, t1) \<Rightarrow> (Inl e, t1)
         | (Inr u, t1) \<Rightarrow>
             if \<not> dry \<and> \<not> is_file w u
             then (Inl (SystemExit (''Error: Unity editor not found at '' @ [CHR 0x27] @ u @
                                      [CHR 0x27] @ ''.'')), t1)
             else (Inr u, t1)) \<and>
      (\<not> is_wsl w \<and> (dry \<or> is_file w v) \<longrightarrow>
         resolve_unity_path w (Some []) dry t = (Inr v, t))"
  proof (intro allI impI)
    fix v
    assume h: "environ w ''UNITY_EDITOR_PATH'' = Some v \<and> v \<noteq> []"
    then have env: "environ w ''UNITY_EDITOR_PATH'' = Some v" and ne: "v \<noteq> []"
      by simp_all
    note 1 = resolve_unity_path_fallback [OF env ne, of dry t]
    note 2 = trans [OF 1 resolve_unity_path_explicit [OF ne, of w dry t]]
    have 3: "\<not> is_wsl w \<and> (dry \<or> is_file w v) \<longrightarrow>
         resolve_unity_path w (Some []) dry t = (Inr v, t)"
    proof
      assume g: "\<not> is_wsl w \<and> (dry \<or> is_file w v)"
      then have "\<not> is_wsl w" "dry \<or> is_file w v" by simp_all
      from trans [OF 1 resolve_unity_path_native [OF ne this, of t]]
      show "resolve_unity_path w (Some []) dry t = (Inr v, t)" .
    qed
    from 1 2 3 show "resolve_unity_path w (Some []) dry t = resolve_unity_path w (Some v) dry t \<and>
      resolve_unity_path w (Some []) dry t =
        (case to_unix_path w v t of
           (Inl e, t1) \<Rightarrow> (Inl e, t1)
         | (Inr u, t1) \<Rightarrow>
             if \<not> dry \<and> \<not> is_file w u
             then (Inl (SystemExit (''Error: Unity editor not found at '' @ [CHR 0x27] @ u @
                                      [CHR 0x27] @ ''.'')), t1)
             else (Inr u, t1)) \<and>
      (\<not> is_wsl w \<and> (dry \<or> is_file w v) \<longrightarrow>
         resolve_unity_path w (Some []) dry t = (Inr v, t))"
      by (intro conjI)
  qed
  have c: "environ w ''UNITY_EDITOR_PATH'' = None \<or> environ w ''UNITY_EDITOR_PATH'' = Some [] \<longrightarrow>
      resolve_unity_path w (Some []) dry t =
        (Inl (SystemExit ''Error: Unity path is required. Use --unity or set UNITY_EDITOR_PATH.''),
         t)"
    by (auto simp: resolve_unity_path_def py_or_def truthy_def raise_prog_def)
  have d: "\<forall>c. c \<noteq> [] \<longrightarrow>
      resolve_unity_path w (Some c) dry t =
        (case to_unix_path w c t of
           (Inl e, t1) \<Rightarrow> (Inl e, t1)
         | (Inr u, t1) \<Rightarrow>
             if \<not> dry \<and> \<not> is_file w u
             then (Inl (SystemExit (''Error: Unity editor not found at '' @ [CHR 0x27] @ u @
                                      [CHR 0x27] @ ''.'')), t1)
             else (Inr u, t1)) \<and>
      (\<not> is_wsl w \<and> (dry \<or> is_file w c) \<longrightarrow>
         resolve_unity_path w (Some c) dry t = (Inr c, t))"
  proof (intro allI impI conjI)
    fix c :: string
    assume ne: "c \<noteq> []"
    show "resolve_unity_path w (Some c) dry t =
        (case to_unix_path w c t of
           (Inl e, t1) \<Rightarrow> (Inl e, t1)
         | (Inr u, t1) \<Rightarrow>
             if \<not> dry \<and> \<not> is_file w u
             then (Inl (SystemExit (''Error: Unity editor not found at '' @ [CHR 0x27] @ u @
                                      [CHR 0x27] @ ''.'')), t1)
             else (Inr u, t1))"
      by (rule resolve_unity_path_explicit [OF ne])
    assume g: "\<not> is_wsl w \<and> (dry \<or> is_file w c)"
    then have "\<not> is_wsl w" "dry \<or> is_file w c" by simp_all
    from resolve_unity_path_native [OF ne this]
    show "resolve_unity_path w (Some c) dry t = (Inr c, t)" .
  qed
  from a b c d show ?thesis by (intro conjI)
qed

text \<open>
  C9 with the variable set (\<open>native_world\<close>, where the empty explicit path resolves to the
  variable's value), with it unset (\<open>wsl_world\<close>), and with a non-empty explicit path that
  wins over the variable.
\<close>

theorem resolve_unity_path_empty_explicit_witness:
  "resolve_unity_path native_world (Some []) False [] = (Inr ''/opt/Unity/Editor/Unity'', []) \<and>
   resolve_unity_path wsl_world (Some []) True [] =
     (Inl (SystemExit ''Error: Unity path is required. Use --unity or set UNITY_EDITOR_PATH.''),
      []) \<and>
   resolve_unity_path native_world (Some ''/no/such/Unity'') True [] =
     (Inr ''/no/such/Unity'', [])"
proof -
  have n: "\<not> is_wsl native_world"
    by (simp add: is_wsl_def native_world_def)
  have e: "environ native_world ''UNITY_EDITOR_PATH'' = Some ''/opt/Unity/Editor/Unity'' \<and>
           ''/opt/Unity/Editor/Unity'' \<noteq> []"
    by (simp add: native_world_def)
  have f: "is_file native_world ''/opt/Unity/Editor/Unity''"
    by (simp add: native_world_def)
  have u: "environ wsl_world ''UNITY_EDITOR_PATH'' = None"
    by (simp add: wsl_world_def)
  have ne: "''/no/such/Unity'' \<noteq> []" by simp
  from resolve_unity_path_empty_explicit [of native_world False "[]"] n e f
  have a: "resolve_unity_path native_world (Some []) False [] =
             (Inr ''/opt/Unity/Editor/Unity'', [])"
    by blast
  from resolve_unity_path_empty_explicit [of wsl_world True "[]"] u
  have b: "resolve_unity_path wsl_world (Some []) True [] =
     (Inl (SystemExit ''Error: Unity path is required. Use --unity or set UNITY_EDITOR_PATH.''),
      [])"
    by blast
  from resolve_unity_path_empty_explicit [of native_world True "[]"] n ne
  have c: "resolve_unity_path native_world (Some ''/no/such/Unity'') True [] =
     (Inr ''/no/such/Unity'', [])"
    by blast
  from a b c show ?thesis by blast
qed

section \<open>The two runs of \<open>full\<close> mode\<close>





text \<open>The example worlds and the \<open>full\<close> request, field by field.\<close>

lemma native_world_simps:
  "unity_run native_world h c = 0"
  "is_file native_world p = (p = ''/opt/Unity/Editor/Unity'')"
  "path_resolve native_world p = p"
  "joinpath native_world d n = d @ ''/'' @ n"
  "strftime_now native_world h = ''20240101-120000''"
  "is_wsl native_world = False"
  "to_windows_path native_world p t = (Inr p, t)"
  "to_unix_path native_world p t = (Inr p, t)"
  by (simp_all add: native_world_def is_wsl_def to_windows_path_def to_unix_path_def
      return_prog_def)

lemma failing_runner_world_simps:
  "unity_run failing_runner_world h c = (if runner_launches h = [] then 1 else 0)"
  "is_file failing_runner_world p = (p = ''/opt/Unity/Editor/Unity'')"
  "path_resolve failing_runner_world p = p"
  "joinpath failing_runner_world d n = d @ ''/'' @ n"
  "strftime_now failing_runner_world h = ''20240101-120000''"
  "is_wsl failing_runner_world = False"
  "to_windows_path failing_runner_world p t = (Inr p, t)"
  "to_unix_path failing_runner_world p t = (Inr p, t)"
  by (simp_all add: failing_runner_world_def native_world_def is_wsl_def to_windows_path_def
      to_unix_path_def return_prog_def)


lemma resolve_native:
  "resolve_unity_path native_world (Some ''/opt/Unity/Editor/Unity'') False t =
     (Inr ''/opt/Unity/Editor/Unity'', t)"
  "resolve_unity_path failing_runner_world (Some ''/opt/Unity/Editor/Unity'') False t =
     (Inr ''/opt/Unity/Editor/Unity'', t)"
  by (simp_all add: resolve_unity_path_unfold py_or_def truthy_def native_world_simps
      failing_runner_world_simps)





end
